theory Spec2Isabelle
  imports Main "HOL-Library.AList"
begin

section \<open>JavaScript values\<close>

text \<open>
  The values the console passes around: the arguments of the Commander's methods are
  untyped, so they are modelled as JavaScript values. Numbers are the integer-valued ones
  (the only numerals of the source are integers; a request counter stays far below
  \<open>2^53\<close>, where a double stops being exact, in an interactive session). A string is a
  list of characters with codes below 256. An object is the list of its own enumerable
  properties in insertion order, with distinct keys.
\<close>

datatype jsval =
    JUndefined
  | JNull
  | JBool bool
  | JNum int
  | JStr string
  | JArr "jsval list"
  | JObj "(string \<times> jsval) list"

text \<open>\<open>typeof v\<close>.\<close>

fun js_typeof :: "jsval \<Rightarrow> string" where
  "js_typeof JUndefined = ''undefined''"
| "js_typeof JNull = ''object''"
| "js_typeof (JBool b) = ''boolean''"
| "js_typeof (JNum n) = ''number''"
| "js_typeof (JStr s) = ''string''"
| "js_typeof (JArr vs) = ''object''"
| "js_typeof (JObj kvs) = ''object''"

text \<open>ToBoolean: what \<open>!v\<close> and \<open>v || w\<close> test.\<close>

fun truthy :: "jsval \<Rightarrow> bool" where
  "truthy JUndefined = False"
| "truthy JNull = False"
| "truthy (JBool b) = b"
| "truthy (JNum n) = (n \<noteq> 0)"
| "truthy (JStr s) = (s \<noteq> [])"
| "truthy (JArr vs) = True"
| "truthy (JObj kvs) = True"

text \<open>\<open>a || b\<close>.\<close>

definition js_or :: "jsval \<Rightarrow> jsval \<Rightarrow> jsval" where
  "js_or a b = (if truthy a then a else b)"

text \<open>\<open>typeof v !== 'string' || v.length <= 0\<close> is the negation of this test.\<close>

fun nonempty_string :: "jsval \<Rightarrow> bool" where
  "nonempty_string (JStr s) = (s \<noteq> [])"
| "nonempty_string v = False"

text \<open>\<open>o.k\<close> on a value already known to be neither undefined nor null.\<close>

fun get_prop :: "jsval \<Rightarrow> string \<Rightarrow> jsval" where
  "get_prop (JObj kvs) k = (case map_of kvs k of None \<Rightarrow> JUndefined | Some v \<Rightarrow> v)"
| "get_prop v k = JUndefined"

subsection \<open>Numbers and values as text\<close>

definition digit_char :: "nat \<Rightarrow> char" where
  "digit_char n = ''0123456789abcdef'' ! n"

function show_nat :: "nat \<Rightarrow> string" where
  "show_nat n = (if n < 10 then [digit_char n] else show_nat (n div 10) @ [digit_char (n mod 10)])"
  by pat_completeness auto
termination
  by (relation "measure id") auto

declare show_nat.simps [simp del]

definition show_int :: "int \<Rightarrow> string" where
  "show_int i = (if i < 0 then CHR ''-'' # show_nat (nat (- i)) else show_nat (nat i))"

fun join_with :: "string \<Rightarrow> string list \<Rightarrow> string" where
  "join_with sep [] = []"
| "join_with sep [x] = x"
| "join_with sep (x # y # xs) = x @ sep @ join_with sep (y # xs)"

text \<open>
  \<open>String(v)\<close>: what \<open>'text' + v\<close> appends and what \<open>util.format\<close> puts in the
  place of \<open>%s\<close>. An array is its elements joined by commas, with null and undefined
  elements left empty.
\<close>

fun js_String :: "jsval \<Rightarrow> string"
  and js_String_elems :: "jsval list \<Rightarrow> string list" where
  "js_String JUndefined = ''undefined''"
| "js_String JNull = ''null''"
| "js_String (JBool b) = (if b then ''true'' else ''false'')"
| "js_String (JNum n) = show_int n"
| "js_String (JStr s) = s"
| "js_String (JArr vs) = join_with '','' (js_String_elems vs)"
| "js_String (JObj kvs) = ''[object Object]''"
| "js_String_elems [] = []"
| "js_String_elems (v # vs) =
     (if v = JUndefined \<or> v = JNull then [] else js_String v) # js_String_elems vs"

text \<open>
  \<open>s.substring(a, b)\<close>: both indices are clamped to the string and swapped when the
  first is the larger.
\<close>

definition js_substring :: "string \<Rightarrow> int \<Rightarrow> int \<Rightarrow> string" where
  "js_substring s a b =
     (let len = int (length s);
          a' = min (max a 0) len;
          b' = min (max b 0) len;
          lo = min a' b';
          hi = max a' b'
      in take (nat (hi - lo)) (drop (nat lo) s))"

subsection \<open>JSON.stringify\<close>

text \<open>
  The serializer of the language, on this universe of values: no white space, a property
  whose value is undefined is left out of an object, an undefined array element is
  written \<open>null\<close>, and \<open>JSON.stringify(undefined)\<close> is undefined itself.
\<close>

definition json_escape_char :: "char \<Rightarrow> string" where
  "json_escape_char c =
     (if c = CHR 0x22 then [CHR 0x5C, CHR 0x22]
      else if c = CHR 0x5C then [CHR 0x5C, CHR 0x5C]
      else if c = CHR 0x08 then [CHR 0x5C, CHR ''b'']
      else if c = CHR 0x0C then [CHR 0x5C, CHR ''f'']
      else if c = CHR 0x0A then [CHR 0x5C, CHR ''n'']
      else if c = CHR 0x0D then [CHR 0x5C, CHR ''r'']
      else if c = CHR 0x09 then [CHR 0x5C, CHR ''t'']
      else if (of_char c :: nat) < 32
        then [CHR 0x5C, CHR ''u'', CHR ''0'', CHR ''0'',
              digit_char (of_char c div 16), digit_char (of_char c mod 16)]
      else [c])"

definition json_quote :: "string \<Rightarrow> string" where
  "json_quote s = CHR 0x22 # concat (map json_escape_char s) @ [CHR 0x22]"

fun stringify_val :: "jsval \<Rightarrow> string"
  and stringify_elems :: "jsval list \<Rightarrow> string list"
  and stringify_members :: "(string \<times> jsval) list \<Rightarrow> string list" where
  "stringify_val JUndefined = ''null''"
| "stringify_val JNull = ''null''"
| "stringify_val (JBool b) = (if b then ''true'' else ''false'')"
| "stringify_val (JNum n) = show_int n"
| "stringify_val (JStr s) = json_quote s"
| "stringify_val (JArr vs) = ''['' @ join_with '','' (stringify_elems vs) @ '']''"
| "stringify_val (JObj kvs) = ''{'' @ join_with '','' (stringify_members kvs) @ ''}''"
| "stringify_elems [] = []"
| "stringify_elems (v # vs) = stringify_val v # stringify_elems vs"
| "stringify_members [] = []"
| "stringify_members (kv # kvs) =
     (if snd kv = JUndefined then []
      else [json_quote (fst kv) @ '':'' @ stringify_val (snd kv)]) @ stringify_members kvs"

definition JSON_stringify :: "jsval \<Rightarrow> jsval" where
  "JSON_stringify v = (if v = JUndefined then JUndefined else JStr (stringify_val v))"

subsection \<open>JSON.parse\<close>

text \<open>
  The parser of the language, by recursive descent over the JSON grammar: white space is
  space, tab, line feed and carriage return; a string has no raw control character and
  the escapes \<open>\" \\ \/ \b \f \n \r \t \uXXXX\<close>; a number is an optional minus sign and
  digits with no leading zero. A failure is the text of the SyntaxError thrown, as
  \<open>String(ex)\<close> gives it; the wording is the engine's own and nothing depends on it.
  Two forms denote values outside this universe and are refused by the model: a number
  with a fraction or an exponent, and a \<open>\u\<close> escape above \<open>00FF\<close>. So the model
  refuses every text the language refuses, and returns the language's value for every
  text it accepts.
  The descent into nested arrays and objects is bounded by a fuel that \<open>JSON_parse\<close>
  sets from the length of the text, high enough for every text.
\<close>

datatype 'a presult = POk 'a string | PErr string | PFuel

definition unexpected :: "string \<Rightarrow> string" where
  "unexpected s = (case s of [] \<Rightarrow> ''Unexpected end of input''
                   | c # cs \<Rightarrow> ''Unexpected token '' @ [c])"

definition is_json_ws :: "char \<Rightarrow> bool" where
  "is_json_ws c = (c = CHR '' '' \<or> c = CHR 0x09 \<or> c = CHR 0x0A \<or> c = CHR 0x0D)"

definition skip_ws :: "string \<Rightarrow> string" where
  "skip_ws s = dropWhile is_json_ws s"

definition is_digit :: "char \<Rightarrow> bool" where
  "is_digit c = (48 \<le> (of_char c :: nat) \<and> (of_char c :: nat) \<le> 57)"

definition digit_val :: "char \<Rightarrow> nat" where
  "digit_val c = of_char c - 48"

definition digits_val :: "string \<Rightarrow> nat" where
  "digits_val ds = foldl (\<lambda>a c. 10 * a + digit_val c) 0 ds"

definition hex_val :: "char \<Rightarrow> nat option" where
  "hex_val c =
     (let n = (of_char c :: nat)
      in if 48 \<le> n \<and> n \<le> 57 then Some (n - 48)
         else if 97 \<le> n \<and> n \<le> 102 then Some (n - 87)
         else if 65 \<le> n \<and> n \<le> 70 then Some (n - 55)
         else None)"

definition hex4 :: "char \<Rightarrow> char \<Rightarrow> char \<Rightarrow> char \<Rightarrow> nat option" where
  "hex4 a b c d =
     (case (hex_val a, hex_val b, hex_val c, hex_val d) of
        (Some w, Some x, Some y, Some z) \<Rightarrow> Some (((w * 16 + x) * 16 + y) * 16 + z)
      | _ \<Rightarrow> None)"

definition unescape :: "char \<Rightarrow> char option" where
  "unescape e =
     (if e = CHR 0x22 then Some (CHR 0x22)
      else if e = CHR 0x5C then Some (CHR 0x5C)
      else if e = CHR ''/'' then Some (CHR ''/'')
      else if e = CHR ''b'' then Some (CHR 0x08)
      else if e = CHR ''f'' then Some (CHR 0x0C)
      else if e = CHR ''n'' then Some (CHR 0x0A)
      else if e = CHR ''r'' then Some (CHR 0x0D)
      else if e = CHR ''t'' then Some (CHR 0x09)
      else None)"

definition prepend :: "char \<Rightarrow> string presult \<Rightarrow> string presult" where
  "prepend c r = (case r of POk s rest \<Rightarrow> POk (c # s) rest | PErr e \<Rightarrow> PErr e | PFuel \<Rightarrow> PFuel)"

text \<open>The characters of a string after its opening quote, up to the closing one.\<close>

fun parse_string_chars :: "string \<Rightarrow> string presult" where
  "parse_string_chars [] = PErr (unexpected [])"
| "parse_string_chars (c # cs) =
     (if c = CHR 0x22 then POk [] cs
      else if c = CHR 0x5C then
        (case cs of
           [] \<Rightarrow> PErr (unexpected [])
         | e # r \<Rightarrow>
             if e = CHR ''u'' then
               (case r of
                  h1 # h2 # h3 # h4 # r' \<Rightarrow>
                    (case hex4 h1 h2 h3 h4 of
                       None \<Rightarrow> PErr (unexpected r)
                     | Some n \<Rightarrow>
                         if n < 256 then prepend (char_of n) (parse_string_chars r')
                         else PErr (unexpected r))
                | _ \<Rightarrow> PErr (unexpected []))
             else
               (case unescape e of
                  None \<Rightarrow> PErr (unexpected (e # r))
                | Some ch \<Rightarrow> prepend ch (parse_string_chars r)))
      else if (of_char c :: nat) < 32 then PErr (unexpected (c # cs))
      else prepend c (parse_string_chars cs))"

definition parse_number :: "string \<Rightarrow> jsval presult" where
  "parse_number s =
     (let neg = (s \<noteq> [] \<and> hd s = CHR ''-'');
          s1 = (if neg then tl s else s);
          ds = (if s1 \<noteq> [] \<and> hd s1 = CHR ''0'' then ''0'' else takeWhile is_digit s1);
          rest = drop (length ds) s1
      in if ds = [] then PErr (unexpected s1)
         else if rest \<noteq> [] \<and> hd rest \<in> {CHR ''.'', CHR ''e'', CHR ''E''} then PErr (unexpected rest)
         else POk (JNum (if neg then - int (digits_val ds) else int (digits_val ds))) rest)"

definition has_prefix :: "string \<Rightarrow> string \<Rightarrow> bool" where
  "has_prefix p s = (take (length p) s = p)"

fun parse_value :: "nat \<Rightarrow> string \<Rightarrow> jsval presult"
  and parse_elements :: "nat \<Rightarrow> string \<Rightarrow> (jsval list) presult"
  and parse_members :: "nat \<Rightarrow> string \<Rightarrow> ((string \<times> jsval) list) presult" where
  "parse_value 0 s = PFuel"
| "parse_value (Suc n) s =
     (case s of
        [] \<Rightarrow> PErr (unexpected [])
      | c # cs \<Rightarrow>
          if c = CHR 0x22 then
            (case parse_string_chars cs of
               POk str r \<Rightarrow> POk (JStr str) r
             | PErr e \<Rightarrow> PErr e
             | PFuel \<Rightarrow> PFuel)
          else if c = CHR ''['' then
            (if skip_ws cs \<noteq> [] \<and> hd (skip_ws cs) = CHR '']'' then POk (JArr []) (tl (skip_ws cs))
             else (case parse_elements n (skip_ws cs) of
                     POk vs r \<Rightarrow> POk (JArr vs) r
                   | PErr e \<Rightarrow> PErr e
                   | PFuel \<Rightarrow> PFuel))
          else if c = CHR ''{'' then
            (if skip_ws cs \<noteq> [] \<and> hd (skip_ws cs) = CHR ''}'' then POk (JObj []) (tl (skip_ws cs))
             else (case parse_members n (skip_ws cs) of
                     POk kvs r \<Rightarrow> POk (JObj (foldl (\<lambda>ob kv. AList.update (fst kv) (snd kv) ob) [] kvs)) r
                   | PErr e \<Rightarrow> PErr e
                   | PFuel \<Rightarrow> PFuel))
          else if has_prefix ''true'' s then POk (JBool True) (drop 4 s)
          else if has_prefix ''false'' s then POk (JBool False) (drop 5 s)
          else if has_prefix ''null'' s then POk JNull (drop 4 s)
          else parse_number s)"
| "parse_elements 0 s = PFuel"
| "parse_elements (Suc n) s =
     (case parse_value n s of
        POk v r \<Rightarrow>
          (case skip_ws r of
             [] \<Rightarrow> PErr (unexpected [])
           | d # r' \<Rightarrow>
               if d = CHR '','' then
                 (case parse_elements n (skip_ws r') of
                    POk vs r'' \<Rightarrow> POk (v # vs) r''
                  | PErr e \<Rightarrow> PErr e
                  | PFuel \<Rightarrow> PFuel)
               else if d = CHR '']'' then POk [v] r'
               else PErr (unexpected (d # r')))
      | PErr e \<Rightarrow> PErr e
      | PFuel \<Rightarrow> PFuel)"
| "parse_members 0 s = PFuel"
| "parse_members (Suc n) s =
     (case s of
        [] \<Rightarrow> PErr (unexpected [])
      | q # cs \<Rightarrow>
          if q \<noteq> CHR 0x22 then PErr (unexpected s)
          else
            (case parse_string_chars cs of
               POk k r \<Rightarrow>
                 (case skip_ws r of
                    [] \<Rightarrow> PErr (unexpected [])
                  | col # r1 \<Rightarrow>
                      if col \<noteq> CHR '':'' then PErr (unexpected (col # r1))
                      else
                        (case parse_value n (skip_ws r1) of
                           POk v r2 \<Rightarrow>
                             (case skip_ws r2 of
                                [] \<Rightarrow> PErr (unexpected [])
                              | d # r3 \<Rightarrow>
                                  if d = CHR '','' then
                                    (case parse_members n (skip_ws r3) of
                                       POk kvs r4 \<Rightarrow> POk ((k, v) # kvs) r4
                                     | PErr e \<Rightarrow> PErr e
                                     | PFuel \<Rightarrow> PFuel)
                                  else if d = CHR ''}'' then POk [(k, v)] r3
                                  else PErr (unexpected (d # r3)))
                         | PErr e \<Rightarrow> PErr e
                         | PFuel \<Rightarrow> PFuel))
             | PErr e \<Rightarrow> PErr e
             | PFuel \<Rightarrow> PFuel))"

declare parse_value.simps [simp del] parse_elements.simps [simp del] parse_members.simps [simp del]

text \<open>
  \<open>JSON.parse(text)\<close>: the value, or the SyntaxError as text. Nothing but white space
  may follow the value.
\<close>

definition JSON_parse :: "string \<Rightarrow> string + jsval" where
  "JSON_parse s =
     (case parse_value (2 * length s + 1) (skip_ws s) of
        POk v r \<Rightarrow>
          if skip_ws r = [] then Inr v
          else Inl (''SyntaxError: '' @ unexpected (skip_ws r))
      | PErr e \<Rightarrow> Inl (''SyntaxError: '' @ e)
      | PFuel \<Rightarrow> Inl ''SyntaxError: Unexpected end of input'')"

subsection \<open>Values with a JSON text\<close>


text \<open>
  Two notions for reading a text back: what may follow a value's text inside a JSON text,
  and the characters a value's text can begin with.
\<close>

definition delimited :: "string \<Rightarrow> bool" where
  "delimited rest = (rest = [] \<or> hd rest \<in> {CHR '','', CHR '']'', CHR ''}''})"


section \<open>The Commander\<close>

text \<open>
  The mqtt client is the connection the console is given: \<open>publish(topic, message)\<close>
  hands a message to the broker and \<open>subscribe(topic)\<close> registers a topic. The model
  keeps both as logs, in call order.
\<close>

record mqtt_client =
  published :: "(string \<times> jsval) list"
  subscribed :: "string list"

definition publish :: "mqtt_client \<Rightarrow> string \<Rightarrow> jsval \<Rightarrow> mqtt_client" where
  "publish c topic message = c\<lparr>published := published c @ [(topic, message)]\<rparr>"

definition subscribe :: "mqtt_client \<Rightarrow> string \<Rightarrow> mqtt_client" where
  "subscribe c topic = c\<lparr>subscribed := subscribed c @ [topic]\<rparr>"

record commander =
  client :: mqtt_client
  topicPrefix :: string
  requestCounter :: nat
  sessionId :: string

text \<open>
  Every \<open>throw new Error(message)\<close> of the source is a value. The constructor records
  which kind of failure the throw site reports: a rejected argument, a configuration
  text that did not parse, or a second launch. A TypeError and a ReferenceError are the
  engine's own.
\<close>

datatype error =
    InvalidArgument string
  | ConfigParseError string
  | IllegalState string
  | TypeError string
  | ReferenceError string

datatype outcome = Returned | Threw error

text \<open>
  \<open>new Commander(client, gateway, username, sessionId)\<close>. The client is an object by
  its type here. \<open>generated\<close> is what \<open>shortid.generate()\<close> returns if it is called.
\<close>

definition new_Commander ::
  "mqtt_client \<Rightarrow> jsval \<Rightarrow> jsval \<Rightarrow> jsval \<Rightarrow> string \<Rightarrow> error + commander" where
  "new_Commander cl gateway username sid generated =
     (if \<not> nonempty_string gateway then Inl (InvalidArgument ''Invalid gateway specified (arg #3)'')
      else if \<not> nonempty_string username then Inl (InvalidArgument ''Invalid username specified (arg #2)'')
      else Inr \<lparr> client = cl,
                 topicPrefix = ''cloud/'' @ js_String username @ ''/'' @ js_String gateway @ ''/'',
                 requestCounter = 0,
                 sessionId = (if \<not> nonempty_string sid then generated else js_String sid) \<rparr>)"

text \<open>\<open>_getNextRequestId\<close>: the id and the Commander with its counter advanced.\<close>

definition getNextRequestId :: "commander \<Rightarrow> string \<times> commander" where
  "getNextRequestId st =
     (let st' = st\<lparr>requestCounter := requestCounter st + 1\<rparr>
      in (sessionId st' @ ''::'' @ show_nat (requestCounter st'), st'))"

text \<open>\<open>_sendPayload(payload, requestId)\<close>.\<close>

definition sendPayload :: "commander \<Rightarrow> jsval \<Rightarrow> jsval \<Rightarrow> outcome \<times> commander" where
  "sendPayload st payload requestId =
     (let (rid, st1) = (if truthy requestId then (requestId, st)
                        else (let (r, st') = getNextRequestId st in (JStr r, st')));
          topic = topicPrefix st1 @ js_String rid
      in (Returned, st1\<lparr>client := publish (client st1) topic (JSON_stringify payload)\<rparr>))"

definition invalid_category :: "jsval \<Rightarrow> error" where
  "invalid_category category =
     InvalidArgument (''Invalid category specified: ['' @ js_String category @ '']'')"

definition invalid_id :: "jsval \<Rightarrow> error" where
  "invalid_id ident = InvalidArgument (''Invalid id specified: ['' @ js_String ident @ '']'')"

text \<open>
  \<open>stopConnector(category, id, requestId)\<close>. The chain of tests rebinds the two
  arguments; \<open>Inr (category, id)\<close> is the pair after it.
\<close>

definition stopConnector :: "commander \<Rightarrow> jsval \<Rightarrow> jsval \<Rightarrow> jsval \<Rightarrow> outcome \<times> commander" where
  "stopConnector st category ident requestId =
     (case (if category = JStr ''all'' then Inr (JUndefined, category)
            else if ident = JStr ''all'' then Inr (JUndefined, ident)
            else if category \<noteq> JStr ''cloud'' \<and> category \<noteq> JStr ''device''
              then Inl (invalid_category category)
            else Inr (category, ident)) of
        Inl e \<Rightarrow> (Threw e, st)
      | Inr (category1, ident1) \<Rightarrow>
          (let ident2 = js_or ident1 (JStr ''all'');
               payload = JObj [
                 (''category'', category1),
                 (''action'', JStr (if ident2 = JStr ''all'' then ''stop_all_connectors''
                                    else ''stop_connector'')),
                 (''id'', if ident2 = JStr ''all'' then JUndefined else ident2)]
           in sendPayload st payload requestId))"

definition startConnector :: "commander \<Rightarrow> jsval \<Rightarrow> jsval \<Rightarrow> jsval \<Rightarrow> outcome \<times> commander" where
  "startConnector st category ident requestId =
     (case (if category = JStr ''all'' then Inr (JUndefined, category)
            else if ident = JStr ''all'' then Inr (JUndefined, ident)
            else if category \<noteq> JStr ''cloud'' \<and> category \<noteq> JStr ''device''
              then Inl (invalid_category category)
            else Inr (category, ident)) of
        Inl e \<Rightarrow> (Threw e, st)
      | Inr (category1, ident1) \<Rightarrow>
          (let ident2 = js_or ident1 (JStr ''all'');
               payload = JObj [
                 (''category'', category1),
                 (''action'', JStr (if ident2 = JStr ''all'' then ''start_all_connectors''
                                    else ''start_connector'')),
                 (''id'', if ident2 = JStr ''all'' then JUndefined else ident2)]
           in sendPayload st payload requestId))"

text \<open>\<open>listConnectors(category, requestId)\<close>.\<close>

definition listConnectors :: "commander \<Rightarrow> jsval \<Rightarrow> jsval \<Rightarrow> outcome \<times> commander" where
  "listConnectors st category requestId =
     (if category \<noteq> JUndefined \<and> category \<noteq> JStr ''cloud'' \<and> category \<noteq> JStr ''device''
        then (Threw (invalid_category category), st)
      else sendPayload st
             (JObj [(''category'', category), (''action'', JStr ''list_connectors'')])
             requestId)"

definition restartConnector :: "commander \<Rightarrow> jsval \<Rightarrow> jsval \<Rightarrow> jsval \<Rightarrow> outcome \<times> commander" where
  "restartConnector st category ident requestId =
     (case (if category = JStr ''all'' then Inr (JUndefined, category)
            else if ident = JStr ''all'' then Inr (JUndefined, ident)
            else if category \<noteq> JStr ''cloud'' \<and> category \<noteq> JStr ''device''
              then Inl (invalid_category category)
            else Inr (category, ident)) of
        Inl e \<Rightarrow> (Threw e, st)
      | Inr (category1, ident1) \<Rightarrow>
          (let ident2 = js_or ident1 (JStr ''all'');
               payload = JObj [
                 (''category'', category1),
                 (''action'', JStr (if ident2 = JStr ''all'' then ''restart_all_connectors''
                                    else ''restart_connector'')),
                 (''id'', if ident2 = JStr ''all'' then JUndefined else ident2)]
           in sendPayload st payload requestId))"

text \<open>\<open>sendDataToConnector(category, id, data, requestId)\<close>.\<close>

definition sendDataToConnector ::
  "commander \<Rightarrow> jsval \<Rightarrow> jsval \<Rightarrow> jsval \<Rightarrow> jsval \<Rightarrow> outcome \<times> commander" where
  "sendDataToConnector st category ident data requestId =
     (if category \<noteq> JStr ''cloud'' \<and> category \<noteq> JStr ''device''
        then (Threw (invalid_category category), st)
      else if \<not> nonempty_string ident then (Threw (invalid_id ident), st)
      else
        (let data1 =
           (if js_typeof data = ''string'' \<and> length (js_String data) \<ge> 2
              then JStr (js_substring (js_String data) 1 (int (length (js_String data)) - 1))
            else if \<not> truthy data then JStr []
            else if js_typeof data = ''object'' then JSON_stringify data
            else JStr ''{}'')
         in sendPayload st
              (JObj [(''action'', JStr ''send_data''), (''category'', category),
                     (''id'', ident), (''data'', data1)])
              requestId))"

text \<open>
  \<open>sysInfo(gatewayname)\<close> and \<open>resetAgent(gatewayname)\<close> have one parameter and call
  \<open>sendDataToConnector\<close> with three arguments, so its \<open>requestId\<close> is undefined.
\<close>

definition sysInfo :: "commander \<Rightarrow> jsval \<Rightarrow> outcome \<times> commander" where
  "sysInfo st gatewayname =
     (if \<not> nonempty_string gatewayname
        then (Threw (InvalidArgument ''Invalid gateway name specified (arg #1)''), st)
      else sendDataToConnector st (JStr ''device'')
             (JStr (''cnc-gateway-'' @ js_String gatewayname))
             (JObj [(''command'', JStr ''system_info'')]) JUndefined)"

definition resetAgent :: "commander \<Rightarrow> jsval \<Rightarrow> outcome \<times> commander" where
  "resetAgent st gatewayname =
     (if \<not> nonempty_string gatewayname
        then (Threw (InvalidArgument ''Invalid gateway name specified (arg #1)''), st)
      else sendDataToConnector st (JStr ''device'')
             (JStr (''cnc-gateway-'' @ js_String gatewayname))
             (JObj [(''command'', JStr ''reset_agent'')]) JUndefined)"

text \<open>
  \<open>updateConnectorConfig(category, id, config, requestId)\<close>. A string loses its first
  and last character and is parsed; the \<open>catch\<close> wraps the parser's exception.
\<close>

definition updateConnectorConfig ::
  "commander \<Rightarrow> jsval \<Rightarrow> jsval \<Rightarrow> jsval \<Rightarrow> jsval \<Rightarrow> outcome \<times> commander" where
  "updateConnectorConfig st category ident config requestId =
     (if category \<noteq> JStr ''cloud'' \<and> category \<noteq> JStr ''device''
        then (Threw (invalid_category category), st)
      else if \<not> nonempty_string ident then (Threw (invalid_id ident), st)
      else
        (case (if js_typeof config = ''string'' then
                 (case JSON_parse (js_substring (js_String config) 1
                                     (int (length (js_String config)) - 1)) of
                    Inl ex \<Rightarrow>
                      Inl (ConfigParseError (''Error parsing configuration: ['' @ ex @ '']''))
                  | Inr v \<Rightarrow> Inr v)
               else if \<not> truthy config \<or> js_typeof config \<noteq> ''object''
                 then Inl (InvalidArgument
                        ''Invalid config specified - must be string or object (arg #3)'')
               else Inr config) of
           Inl e \<Rightarrow> (Threw e, st)
         | Inr config1 \<Rightarrow>
             sendPayload st
               (JObj [(''action'', JStr ''update_config''), (''category'', category),
                      (''id'', ident), (''config'', config1)])
               requestId))"

definition deleteConnectorConfig ::
  "commander \<Rightarrow> jsval \<Rightarrow> jsval \<Rightarrow> jsval \<Rightarrow> outcome \<times> commander" where
  "deleteConnectorConfig st category ident requestId =
     (if category \<noteq> JStr ''cloud'' \<and> category \<noteq> JStr ''device''
        then (Threw (invalid_category category), st)
      else if \<not> nonempty_string ident then (Threw (invalid_id ident), st)
      else sendPayload st
             (JObj [(''action'', JStr ''delete_config''), (''category'', category),
                    (''id'', ident)])
             requestId)"

definition updateConnectorType ::
  "commander \<Rightarrow> jsval \<Rightarrow> jsval \<Rightarrow> jsval \<Rightarrow> outcome \<times> commander" where
  "updateConnectorType st type modulePath requestId =
     (if \<not> nonempty_string type
        then (Threw (InvalidArgument (''Invalid type specified: ['' @ js_String type @ '']'')), st)
      else if \<not> nonempty_string modulePath
        then (Threw (InvalidArgument
                (''Invalid module path specified: ['' @ js_String modulePath @ '']'')), st)
      else sendPayload st
             (JObj [(''action'', JStr ''update_connector_type''), (''type'', type),
                    (''modulePath'', modulePath)])
             requestId)"

definition terminateAgent :: "commander \<Rightarrow> jsval \<Rightarrow> outcome \<times> commander" where
  "terminateAgent st requestId =
     sendPayload st
       (JObj [(''action'', JStr ''maintenance_action''), (''command'', JStr ''shutdown_program'')])
       requestId"

definition upgradeAgent :: "commander \<Rightarrow> jsval \<Rightarrow> outcome \<times> commander" where
  "upgradeAgent st requestId =
     sendPayload st
       (JObj [(''action'', JStr ''maintenance_action''), (''command'', JStr ''upgrade_program'')])
       requestId"

definition rebootGateway :: "commander \<Rightarrow> jsval \<Rightarrow> outcome \<times> commander" where
  "rebootGateway st requestId =
     sendPayload st
       (JObj [(''action'', JStr ''maintenance_action''), (''command'', JStr ''reboot_gateway'')])
       requestId"

text \<open>
  \<open>initAgent(options, requestId)\<close>. The three defaults are written into the caller's
  object by the source; the model binds them locally, as nothing reads the object again.
\<close>

definition initAgent :: "commander \<Rightarrow> jsval \<Rightarrow> jsval \<Rightarrow> outcome \<times> commander" where
  "initAgent st options requestId =
     (if \<not> truthy options \<or> js_typeof options \<noteq> ''object''
        then (Threw (InvalidArgument ''Invalid provisioning options specified (arg #1)''), st)
      else if \<not> nonempty_string (get_prop options ''host'')
        then (Threw (InvalidArgument ''Options does not define a valid host (options.host)''), st)
      else if \<not> nonempty_string (get_prop options ''currentGatewayName'')
        then (Threw (InvalidArgument
          ''Options does not define a valid current gateway name (options.currentGatewayName)''), st)
      else if \<not> nonempty_string (get_prop options ''newGatewayName'')
        then (Threw (InvalidArgument
          ''Options does not define a valid new gateway name (options.newGatewayName)''), st)
      else if \<not> nonempty_string (get_prop options ''username'')
        then (Threw (InvalidArgument
          ''Options does not define a valid user name (options.username)''), st)
      else if \<not> nonempty_string (get_prop options ''password'')
        then (Threw (InvalidArgument
          ''Options does not define a valid password (options.password)''), st)
      else
        (let port = js_or (get_prop options ''port'') (JStr ''8443'');
             protocol = js_or (get_prop options ''protocol'') (JStr ''mqtts'');
             networkInterface = js_or (get_prop options ''networkInterface'') (JStr ''eth0'');
             host = get_prop options ''host'';
             newGatewayName = get_prop options ''newGatewayName'';
             currentGatewayName = get_prop options ''currentGatewayName'';
             apiKey = get_prop options ''apiKey'';
             payload = [
               JObj [(''action'', JStr ''update_config''),
                     (''category'', JStr ''cloud''),
                     (''id'', JStr (''cnc-cloud-'' @ js_String newGatewayName)),
                     (''config'', JObj [
                        (''type'', JStr ''CncCloud''),
                        (''config'', JObj [
                           (''host'', host),
                           (''port'', port),
                           (''protocol'', protocol),
                           (''networkInterface'', networkInterface),
                           (''gatewayname'', newGatewayName),
                           (''username'', get_prop options ''username''),
                           (''password'', get_prop options ''password''),
                           (''topics'', JStr [])])])],
               JObj [(''action'', JStr ''update_config''),
                     (''category'', JStr ''device''),
                     (''id'', JStr (''cnc-gateway-'' @ js_String newGatewayName)),
                     (''config'', JObj [
                        (''type'', JStr ''CncGateway''),
                        (''config'', JObj [])])],
               JObj [(''action'', JStr ''send_data''),
                     (''category'', JStr ''device''),
                     (''id'', JStr (''cnc-gateway-'' @ js_String currentGatewayName)),
                     (''data'', JSON_stringify (JObj [(''command'', JStr ''disable_local_network'')]))],
               JObj [(''action'', JStr ''delete_config''),
                     (''category'', JStr ''cloud''),
                     (''id'', JStr (''cnc-cloud-'' @ js_String currentGatewayName))],
               JObj [(''action'', JStr ''delete_config''),
                     (''category'', JStr ''device''),
                     (''id'', JStr (''cnc-gateway-'' @ js_String currentGatewayName))]];
             payload1 =
               (if nonempty_string apiKey then
                  payload @ [
                    JObj [(''action'', JStr ''update_config''),
                          (''category'', JStr ''cloud''),
                          (''id'', JStr ''http''),
                          (''config'', JObj [
                             (''type'', JStr ''Http''),
                             (''config'', JObj [
                                (''pollFrequency'', JNum 10000),
                                (''url'', JStr (''https://'' @ js_String host)),
                                (''headers'', JObj [
                                   (''apiKey'', apiKey),
                                   (''content-type'', JStr ''application/json'')])])])]]
                else payload)
         in sendPayload st (JArr payload1) requestId))"

section \<open>The Shell\<close>

subsection \<open>Library functions the Shell calls\<close>

text \<open>\<open>has_prefix p s\<close> is at index 0 what \<open>s.indexOf(p)\<close> looks for at every index.\<close>

fun js_indexOf :: "string \<Rightarrow> string \<Rightarrow> int" where
  "js_indexOf [] p = (if p = [] then 0 else - 1)"
| "js_indexOf (c # cs) p =
     (if has_prefix p (c # cs) then 0
      else (let i = js_indexOf cs p in if i < 0 then - 1 else i + 1))"

text \<open>\<open>s.split(sep)\<close> for a separator of one character.\<close>

fun js_split :: "char \<Rightarrow> string \<Rightarrow> string list" where
  "js_split sep [] = [[]]"
| "js_split sep (c # cs) =
     (if c = sep then [] # js_split sep cs
      else (case js_split sep cs of
              [] \<Rightarrow> [[c]]
            | x # xs \<Rightarrow> (c # x) # xs))"

text \<open>White space as \<open>\s\<close> and \<open>parseInt\<close> see it, among the characters below 256.\<close>

definition is_js_space :: "char \<Rightarrow> bool" where
  "is_js_space c = ((of_char c :: nat) \<in> {9, 10, 11, 12, 13, 32, 160})"

text \<open>
  \<open>resp.match(/(?:[^\s']+|'[^']*')+/g)\<close>: every maximal run of characters that are
  neither white space nor a quote and of quoted parts \<open>'...'\<close>. A quote with no closing
  quote after it belongs to no token and ends the one before it. \<open>inq\<close> is true inside
  a quoted part, \<open>cur\<close> is the token read so far. The result \<open>null\<close> of the source,
  when nothing matches, is the empty list here.
\<close>

definition emit :: "string \<Rightarrow> string list" where
  "emit cur = (if cur = [] then [] else [cur])"

fun scan :: "bool \<Rightarrow> string \<Rightarrow> string \<Rightarrow> string list" where
  "scan inq cur [] = emit cur"
| "scan inq cur (c # cs) =
     (if inq then
        (if c = CHR 0x27 then scan False (cur @ [c]) cs else scan True (cur @ [c]) cs)
      else if c = CHR 0x27 then
        (if CHR 0x27 \<in> set cs then scan True (cur @ [c]) cs
         else emit cur @ scan False [] cs)
      else if is_js_space c then emit cur @ scan False [] cs
      else scan False (cur @ [c]) cs)"

definition match_tokens :: "string \<Rightarrow> string list" where
  "match_tokens resp = scan False [] resp"

text \<open>
  \<open>parseInt(v)\<close>: the text of the value, after leading white space: a sign, \<open>0x\<close> for
  base 16, then the digits up to the first character that is none. \<open>None\<close> is NaN.
\<close>

definition parse_digits :: "nat \<Rightarrow> string \<Rightarrow> nat option" where
  "parse_digits radix s =
     (let ok = (\<lambda>c. case hex_val c of None \<Rightarrow> False | Some d \<Rightarrow> d < radix);
          ds = takeWhile ok s
      in if ds = [] then None
         else Some (foldl (\<lambda>a c. radix * a + the (hex_val c)) 0 ds))"

definition js_parseInt :: "jsval \<Rightarrow> int option" where
  "js_parseInt v =
     (let s = dropWhile is_js_space (js_String v);
          neg = (s \<noteq> [] \<and> hd s = CHR ''-'');
          s1 = (if s \<noteq> [] \<and> (hd s = CHR ''-'' \<or> hd s = CHR ''+'') then tl s else s);
          hex = (has_prefix ''0x'' s1 \<or> has_prefix ''0X'' s1);
          r = (if hex then parse_digits 16 (drop 2 s1) else parse_digits 10 s1)
      in case r of None \<Rightarrow> None
                 | Some n \<Rightarrow> Some (if neg then - int n else int n))"

text \<open>
  \<open>o[k] = v\<close> on an object. The key \<open>__proto__\<close> is the accessor every object inherits,
  which ignores a value that is no object; the Shell only assigns strings and undefined.
\<close>

fun set_prop :: "jsval \<Rightarrow> string \<Rightarrow> jsval \<Rightarrow> jsval" where
  "set_prop (JObj kvs) k v = (if k = ''__proto__'' then JObj kvs else JObj (AList.update k v kvs))"
| "set_prop ob k v = ob"

subsection \<open>The command map\<close>

datatype handler =
    StopConnector | StartConnector | RestartConnector | ListConnectors
  | SendDataToConnector | UpdateConnectorConfig | DeleteConnectorConfig | UpdateConnectorType
  | ResetAgent | TerminateAgent | UpgradeAgent | InitAgent
  | ConfigLepton | SysInfo | RebootGateway

type_synonym command_map = "(string \<times> handler \<times> jsval) list"

text \<open>\<open>generateCommand(commandName, method, args)\<close> of \<open>_buildCommandMap\<close>.\<close>

definition generateCommand :: "command_map \<Rightarrow> string \<Rightarrow> handler \<Rightarrow> jsval \<Rightarrow> command_map" where
  "generateCommand cm commandName m args =
     AList.update commandName (m, js_or args (JArr [])) cm"

definition generateConnectorCommandFamily ::
  "command_map \<Rightarrow> string \<Rightarrow> handler \<Rightarrow> command_map" where
  "generateConnectorCommandFamily cm commandName m =
     foldl (\<lambda>cm' opts. generateCommand cm' (''con:'' @ commandName @ fst opts) m (JArr (snd opts)))
       cm
       [([], []),
        (''_all'', [JStr ''all'']),
        (''_cloud'', [JStr ''cloud'']),
        (''_device'', [JStr ''device''])]"

definition prov_defaults :: "string \<Rightarrow> string \<Rightarrow> jsval" where
  "prov_defaults host gw =
     JObj [(''host'', JStr host),
           (''port'', JNum 8080),
           (''protocol'', JStr ''mqtts''),
           (''networkInterface'', JStr ''eth0''),
           (''currentGatewayName'', JStr gw),
           (''newGatewayName'', JStr []),
           (''username'', JStr []),
           (''password'', JStr [])]"

definition buildCommandMap :: "string \<Rightarrow> command_map" where
  "buildCommandMap gw =
     (let cm1 = generateConnectorCommandFamily [] ''stop'' StopConnector;
          cm2 = generateConnectorCommandFamily cm1 ''start'' StartConnector;
          cm3 = generateConnectorCommandFamily cm2 ''restart'' RestartConnector;
          cm4 = generateConnectorCommandFamily cm3 ''list'' ListConnectors;
          cm5 = generateCommand cm4 ''con:send_data'' SendDataToConnector JUndefined;
          cm6 = generateCommand cm5 ''con:update_config'' UpdateConnectorConfig JUndefined;
          cm7 = generateCommand cm6 ''con:delete_config'' DeleteConnectorConfig JUndefined;
          cm8 = generateCommand cm7 ''con:update_type'' UpdateConnectorType JUndefined;
          cm9 = generateCommand cm8 ''agent:reset'' ResetAgent JUndefined;
          cm10 = generateCommand cm9 ''agent:terminate'' TerminateAgent JUndefined;
          cm11 = generateCommand cm10 ''agent:upgrade'' UpgradeAgent JUndefined;
          cm12 = generateCommand cm11 ''agent:prov_dev'' InitAgent
                   (prov_defaults ''api-iot-dev.analoggarage.com'' gw);
          cm13 = generateCommand cm12 ''agent:prov_prod'' InitAgent
                   (prov_defaults ''api-iot.analoggarage.com'' gw);
          cm14 = generateCommand cm13 ''con:config_lepton'' ConfigLepton
                   (JObj [(''id'', JNull), (''pollFrequency'', JNum 5000), (''maxRetries'', JNum 600)]);
          cm15 = generateCommand cm14 ''sys:info'' SysInfo JUndefined;
          cm16 = generateCommand cm15 ''sys:reboot'' RebootGateway JUndefined
      in cm16)"

text \<open>
  The function \<open>_tabComplete()\<close> returns. \<open>matches\<close> is the array of the enclosing
  call, which the function empties and fills on a partial that is not empty and returns
  as it is on the empty one; the second component is the array after the call.
\<close>

definition tabComplete :: "command_map \<Rightarrow> string list \<Rightarrow> string \<Rightarrow> string list \<times> string list" where
  "tabComplete cm matches partial =
     (if partial = [] then (matches, matches)
      else (let matches' = filter (\<lambda>command. js_indexOf command partial \<ge> 0) (map fst cm)
            in (matches', matches')))"

text \<open>\<open>_applyArgs(defaults, userArgs)\<close>; \<open>userArgs\<close> is the array of tokens.\<close>

definition applyArgs :: "jsval \<Rightarrow> string list \<Rightarrow> jsval list" where
  "applyArgs defaults userArgs =
     (let defaults1 = js_or defaults (JArr []);
          userArgs1 = drop 1 userArgs
      in case defaults1 of
           JArr ds \<Rightarrow> ds @ map JStr userArgs1
         | _ \<Rightarrow>
             [foldl (\<lambda>finalArgs arg.
                       let tokens = js_split CHR ''='' arg
                       in set_prop finalArgs (tokens ! 0)
                            (if 1 < length tokens then JStr (tokens ! 1) else JUndefined))
                defaults1 userArgs1])"

subsection \<open>Calling a handler\<close>

text \<open>The i-th argument of a call: undefined past the end of the argument list.\<close>

definition arg :: "jsval list \<Rightarrow> nat \<Rightarrow> jsval" where
  "arg as i = (if i < length as then as ! i else JUndefined)"

text \<open>The handler of \<open>con:config_lepton\<close>, a function of the options object.\<close>

definition configLepton :: "commander \<Rightarrow> jsval \<Rightarrow> outcome \<times> commander" where
  "configLepton st options =
     (if options = JUndefined \<or> options = JNull
        then (Threw (TypeError ''Cannot read property pollFrequency of undefined''), st)
      else if js_typeof options \<noteq> ''object''
        then (Threw (TypeError ''Cannot assign to read only property pollFrequency''), st)
      else
        (let pollFrequency = (case js_parseInt (get_prop options ''pollFrequency'') of
                                None \<Rightarrow> 60000 | Some n \<Rightarrow> n);
             maxRetries = (case js_parseInt (get_prop options ''maxRetries'') of
                             None \<Rightarrow> 600 | Some n \<Rightarrow> n);
             config = JObj [(''type'', JStr ''LeptonCamera''),
                            (''config'', JObj [
                               (''pollFrequency'', JNum pollFrequency),
                               (''spiDevice'', JStr ''/dev/spidev0.1''),
                               (''i2cDevice'', JStr ''/dev/i2c-1''),
                               (''maxRetries'', JNum maxRetries)])]
         in updateConnectorConfig st (JStr ''device'') (get_prop options ''id'') config JUndefined))"

text \<open>
  \<open>method.apply(null, args)\<close>: the arguments bind to the parameters of the method in
  order; a parameter with no argument is undefined and an argument with no parameter is
  dropped.
\<close>

fun invoke :: "handler \<Rightarrow> jsval list \<Rightarrow> commander \<Rightarrow> outcome \<times> commander" where
  "invoke StopConnector as st = stopConnector st (arg as 0) (arg as 1) (arg as 2)"
| "invoke StartConnector as st = startConnector st (arg as 0) (arg as 1) (arg as 2)"
| "invoke RestartConnector as st = restartConnector st (arg as 0) (arg as 1) (arg as 2)"
| "invoke ListConnectors as st = listConnectors st (arg as 0) (arg as 1)"
| "invoke SendDataToConnector as st =
     sendDataToConnector st (arg as 0) (arg as 1) (arg as 2) (arg as 3)"
| "invoke UpdateConnectorConfig as st =
     updateConnectorConfig st (arg as 0) (arg as 1) (arg as 2) (arg as 3)"
| "invoke DeleteConnectorConfig as st = deleteConnectorConfig st (arg as 0) (arg as 1) (arg as 2)"
| "invoke UpdateConnectorType as st = updateConnectorType st (arg as 0) (arg as 1) (arg as 2)"
| "invoke ResetAgent as st = resetAgent st (arg as 0)"
| "invoke TerminateAgent as st = terminateAgent st (arg as 0)"
| "invoke UpgradeAgent as st = upgradeAgent st (arg as 0)"
| "invoke InitAgent as st = initAgent st (arg as 0) (arg as 1)"
| "invoke ConfigLepton as st = configLepton st (arg as 0)"
| "invoke SysInfo as st = sysInfo st (arg as 0)"
| "invoke RebootGateway as st = rebootGateway st (arg as 0)"

subsection \<open>The read-eval-print loop\<close>

text \<open>
  The Shell and its Commander hold the same client object, so the model keeps it in the
  Commander only. \<open>promptDef\<close> is \<open>None\<close> for null, \<open>Some False\<close> for a pending
  promise and \<open>Some True\<close> for a resolved one. \<open>console\<close> is what \<open>console.log\<close>
  has printed, without colours.
\<close>

record shell =
  shSessionId :: string
  gateway :: string
  cmdr :: commander
  promptDef :: "bool option"
  commandMap :: command_map
  console :: "string list"

definition error_toString :: "error \<Rightarrow> string" where
  "error_toString e =
     (case e of
        InvalidArgument m \<Rightarrow> ''Error: '' @ m
      | ConfigParseError m \<Rightarrow> ''Error: '' @ m
      | IllegalState m \<Rightarrow> ''Error: '' @ m
      | TypeError m \<Rightarrow> ''TypeError: '' @ m
      | ReferenceError m \<Rightarrow> ''ReferenceError: '' @ m)"

definition console_log :: "shell \<Rightarrow> string \<Rightarrow> shell" where
  "console_log sh line = sh\<lparr>console := console sh @ [line]\<rparr>"

text \<open>
  \<open>new Shell(client, gateway, username, sessionId)\<close>. The module never binds
  \<open>_shortId\<close>, so generating a session id is a ReferenceError.
\<close>

definition new_Shell :: "mqtt_client \<Rightarrow> jsval \<Rightarrow> jsval \<Rightarrow> jsval \<Rightarrow> error + shell" where
  "new_Shell cl gw username sid =
     (if \<not> nonempty_string gw then Inl (InvalidArgument ''Invalid gateway specified (arg #3)'')
      else if \<not> nonempty_string username then Inl (InvalidArgument ''Invalid username specified (arg #2)'')
      else if \<not> nonempty_string sid then Inl (ReferenceError ''_shortId is not defined'')
      else
        (let subTopic = ''gateway/'' @ js_String username @ ''/'' @ js_String gw @ ''/+'';
             cl1 = subscribe cl subTopic
         in case new_Commander cl1 gw username sid [] of
              Inl e \<Rightarrow> Inl e
            | Inr c \<Rightarrow>
                Inr \<lparr> shSessionId = js_String sid,
                      gateway = js_String gw,
                      cmdr = c,
                      promptDef = None,
                      commandMap = buildCommandMap (js_String gw),
                      console = [''Subscribing to: ['' @ subTopic @ '']''] \<rparr>))"

text \<open>
  \<open>this._commandMap[name]\<close>: an own entry, or a property every object inherits (a
  function, or the prototype itself: truthy, with neither \<open>args\<close> nor \<open>method\<close>), or
  undefined.
\<close>

datatype lookup = Own "handler \<times> jsval" | Inherited | Missing

definition object_prototype_keys :: "string list" where
  "object_prototype_keys =
     [''constructor'', ''toString'', ''toLocaleString'', ''valueOf'', ''hasOwnProperty'',
      ''isPrototypeOf'', ''propertyIsEnumerable'', ''__defineGetter__'', ''__lookupGetter__'',
      ''__defineSetter__'', ''__lookupSetter__'', ''__proto__'']"

definition lookup_command :: "command_map \<Rightarrow> string \<Rightarrow> lookup" where
  "lookup_command cm name =
     (case map_of cm name of
        Some ci \<Rightarrow> Own ci
      | None \<Rightarrow> if name \<in> set object_prototype_keys then Inherited else Missing)"

text \<open>
  One pass through the body of the \<open>do ... while(!done)\<close> of \<open>_repl\<close>, on the line
  the prompt returned (the empty line when it returned null): the value of \<open>done\<close> and
  the Shell after the pass. The \<open>catch\<close> prints whatever the handler threw.
\<close>

definition repl_step :: "shell \<Rightarrow> string \<Rightarrow> bool \<times> shell" where
  "repl_step sh resp =
     (let tokens = match_tokens resp
      in if tokens = [] then (False, sh)
         else if tokens ! 0 = ''q'' \<or> (1 < length tokens \<and> tokens ! 1 = ''quit'') then (True, sh)
         else
           (case lookup_command (commandMap sh) (tokens ! 0) of
              Missing \<Rightarrow> (False, console_log sh ''bad command'')
            | Inherited \<Rightarrow>
                (False, console_log sh
                   (error_toString (TypeError ''Cannot read property apply of undefined'')))
            | Own ci \<Rightarrow>
                (case invoke (fst ci) (applyArgs (snd ci) tokens) (cmdr sh) of
                   (Returned, c) \<Rightarrow> (False, sh\<lparr>cmdr := c\<rparr>)
                 | (Threw e, c) \<Rightarrow> (False, console_log (sh\<lparr>cmdr := c\<rparr>) (error_toString e)))))"

text \<open>
  The loop, on the lines the operator types. It has left the loop when the first
  component is true; when the lines run out first it is still waiting at the prompt.
\<close>

fun repl :: "shell \<Rightarrow> string list \<Rightarrow> bool \<times> shell" where
  "repl sh [] = (False, sh)"
| "repl sh (l # ls) =
     (case repl_step sh l of
        (True, sh') \<Rightarrow> (True, sh')
      | (False, sh') \<Rightarrow> repl sh' ls)"

text \<open>
  \<open>launch()\<close>: \<open>Some\<close> outcome when the call has come back, \<open>None\<close> while the loop is
  still waiting for a line. The handler for incoming messages it registers runs outside
  this model.
\<close>

definition launch :: "shell \<Rightarrow> string list \<Rightarrow> outcome option \<times> shell" where
  "launch sh lines =
     (if promptDef sh \<noteq> None
        then (Some (Threw (IllegalState ''Cannot launch shell. Shell was previously launched'')), sh)
      else
        (case repl (sh\<lparr>promptDef := Some False\<rparr>) lines of
           (True, sh') \<Rightarrow>
             (Some Returned, (console_log sh' ''Saving history file'')\<lparr>promptDef := Some True\<rparr>)
         | (False, sh') \<Rightarrow> (None, sh')))"

section \<open>Sessions, for stating the properties\<close>




text \<open>
  A session of completion queries on the function one call of \<open>_tabComplete()\<close>
  returned: the array \<open>matches\<close> after the queries.
\<close>

fun tab_session :: "command_map \<Rightarrow> string list \<Rightarrow> string list \<Rightarrow> string list" where
  "tab_session cm matches [] = matches"
| "tab_session cm matches (q # qs) = tab_session cm (snd (tabComplete cm matches q)) qs"

section \<open>Properties\<close>

subsection \<open>Publishing\<close>

lemma sendPayload_explicit:
  "truthy rid \<Longrightarrow> sendPayload st p rid =
     (Returned, st\<lparr>client := publish (client st) (topicPrefix st @ js_String rid) (JSON_stringify p)\<rparr>)"
  by (simp add: sendPayload_def)

lemma sendPayload_generated:
  "\<not> truthy rid \<Longrightarrow> sendPayload st p rid =
     (Returned, st\<lparr>requestCounter := requestCounter st + 1,
                    client := publish (client st)
                      (topicPrefix st @ sessionId st @ ''::'' @ show_nat (requestCounter st + 1))
                      (JSON_stringify p)\<rparr>)"
  by (simp add: sendPayload_def getNextRequestId_def Let_def)

lemma substring_strip:
  "2 \<le> length s \<Longrightarrow> js_substring s 1 (int (length s) - 1) = butlast (tl s)"
  by (cases s) (auto simp: js_substring_def butlast_conv_take min_def max_def Let_def nat_diff_distrib)

subsection \<open>Stopping, starting and restarting connectors\<close>

text \<open>
  C2. Each of \<open>stopConnector\<close>, \<open>startConnector\<close> and \<open>restartConnector\<close> resolves
  its two arguments in this order: a category \<open>"all"\<close>, or else an id \<open>"all"\<close>, sends
  the \<open>_all_connectors\<close> action with neither category nor id, whatever the other argument
  is; otherwise a category other than \<open>"cloud"\<close> and \<open>"device"\<close> throws the error that
  names it and leaves the Commander as it was; otherwise a missing (falsy) id sends the
  \<open>_all_connectors\<close> action for the category, with no id, and any other id sends the
  \<open>_connector\<close> action with the category and the id.
\<close>

theorem connector_normalization:
  assumes "(verb, operation) \<in> {(''stop'', stopConnector), (''start'', startConnector),
                                  (''restart'', restartConnector)}"
  shows "operation st category ident requestId =
     (if category = JStr ''all'' \<or> ident = JStr ''all'' then
        sendPayload st (JObj [(''category'', JUndefined),
                              (''action'', JStr (verb @ ''_all_connectors'')),
                              (''id'', JUndefined)]) requestId
      else if category \<noteq> JStr ''cloud'' \<and> category \<noteq> JStr ''device'' then
        (Threw (InvalidArgument (''Invalid category specified: ['' @ js_String category @ '']'')), st)
      else if \<not> truthy ident then
        sendPayload st (JObj [(''category'', category),
                              (''action'', JStr (verb @ ''_all_connectors'')),
                              (''id'', JUndefined)]) requestId
      else
        sendPayload st (JObj [(''category'', category),
                              (''action'', JStr (verb @ ''_connector'')),
                              (''id'', ident)]) requestId)"
  using assms
  by (auto simp: stopConnector_def startConnector_def restartConnector_def js_or_def
        invalid_category_def)

theorem connector_normalization_witness:
  \<open>stopConnector \<lparr>client = \<lparr>published = [], subscribed = []\<rparr>, topicPrefix = ''cloud/u/g/'',
                    requestCounter = 0, sessionId = ''s''\<rparr>
      (JStr ''cloud'') (JStr ''sensor1'') JUndefined
   = (Returned,
      \<lparr>client = \<lparr>published = [(''cloud/u/g/s::1'',
                     JStr ''{"category":"cloud","action":"stop_connector","id":"sensor1"}'')],
                  subscribed = []\<rparr>,
       topicPrefix = ''cloud/u/g/'', requestCounter = 1, sessionId = ''s''\<rparr>)\<close>
proof -
  have m: "(''stop'', stopConnector) \<in> {(''stop'', stopConnector), (''start'', startConnector),
                                  (''restart'', restartConnector)}" by simp
  show ?thesis
    using connector_normalization [OF m, of _ "JStr ''cloud''" "JStr ''sensor1''" JUndefined]
    by (simp add: sendPayload_generated publish_def JSON_stringify_def json_quote_def
          json_escape_char_def show_nat.simps digit_char_def)
qed

text \<open>
  C3, as stated, fails: a category outside \<open>"cloud"\<close>, \<open>"device"\<close>, \<open>"all"\<close> and
  undefined is not rejected when the id is \<open>"all"\<close>; the stop-all message is published.
\<close>

theorem all_id_overrides_category:
  \<open>JStr ''foo'' \<notin> {JStr ''cloud'', JStr ''device'', JStr ''all'', JUndefined} \<and>
   stopConnector \<lparr>client = \<lparr>published = [], subscribed = []\<rparr>, topicPrefix = ''cloud/u/g/'',
                    requestCounter = 0, sessionId = ''s''\<rparr>
      (JStr ''foo'') (JStr ''all'') JUndefined
   = (Returned,
      \<lparr>client = \<lparr>published = [(''cloud/u/g/s::1'', JStr ''{"action":"stop_all_connectors"}'')],
                  subscribed = []\<rparr>,
       topicPrefix = ''cloud/u/g/'', requestCounter = 1, sessionId = ''s''\<rparr>)\<close>
  by code_simp

text \<open>
  C3, amended. For a category outside \<open>"cloud"\<close>, \<open>"device"\<close>, \<open>"all"\<close> and
  undefined, \<open>listConnectors\<close> throws the error naming the category, and so do
  \<open>stopConnector\<close>, \<open>startConnector\<close> and \<open>restartConnector\<close> for every id other
  than \<open>"all"\<close>; the Commander, and with it the list of published messages, is unchanged.
\<close>

theorem invalid_category_rejected:
  assumes "category \<notin> {JStr ''cloud'', JStr ''device'', JStr ''all'', JUndefined}"
  shows "listConnectors st category requestId =
           (Threw (InvalidArgument (''Invalid category specified: ['' @ js_String category @ '']'')), st)
       \<and> (ident \<noteq> JStr ''all'' \<longrightarrow>
            stopConnector st category ident requestId =
              (Threw (InvalidArgument (''Invalid category specified: ['' @ js_String category @ '']'')), st) \<and>
            startConnector st category ident requestId =
              (Threw (InvalidArgument (''Invalid category specified: ['' @ js_String category @ '']'')), st) \<and>
            restartConnector st category ident requestId =
              (Threw (InvalidArgument (''Invalid category specified: ['' @ js_String category @ '']'')), st))"
  using assms
  by (auto simp: listConnectors_def stopConnector_def startConnector_def restartConnector_def
        invalid_category_def)

theorem invalid_category_rejected_witness:
  \<open>listConnectors \<lparr>client = \<lparr>published = [], subscribed = []\<rparr>, topicPrefix = ''cloud/u/g/'',
                     requestCounter = 0, sessionId = ''s''\<rparr> (JStr ''foo'') JUndefined
     = (Threw (InvalidArgument ''Invalid category specified: [foo]''),
        \<lparr>client = \<lparr>published = [], subscribed = []\<rparr>, topicPrefix = ''cloud/u/g/'',
                     requestCounter = 0, sessionId = ''s''\<rparr>)
   \<and> restartConnector \<lparr>client = \<lparr>published = [], subscribed = []\<rparr>, topicPrefix = ''cloud/u/g/'',
                     requestCounter = 0, sessionId = ''s''\<rparr> (JStr ''foo'') (JStr ''sensor1'') JUndefined
     = (Threw (InvalidArgument ''Invalid category specified: [foo]''),
        \<lparr>client = \<lparr>published = [], subscribed = []\<rparr>, topicPrefix = ''cloud/u/g/'',
                     requestCounter = 0, sessionId = ''s''\<rparr>)\<close>
proof -
  have m: "JStr ''foo'' \<notin> {JStr ''cloud'', JStr ''device'', JStr ''all'', JUndefined}" by simp
  show ?thesis
    using invalid_category_rejected [OF m, of _ JUndefined "JStr ''sensor1''"]
    by simp
qed

subsection \<open>Configuration text that does not parse\<close>

text \<open>
  C6. With a category of \<open>"cloud"\<close> or \<open>"device"\<close> and an id that is a non-empty
  string, a string \<open>config\<close> whose text between its first and last character
  \<open>JSON.parse\<close> rejects makes \<open>updateConnectorConfig\<close> throw the configuration
  parse error, whose message holds the text of the parser's exception; the Commander
  comes back as it was, so its counter has not moved and nothing was published.
\<close>

theorem config_parse_failure:
  assumes "category = JStr ''cloud'' \<or> category = JStr ''device''"
    and "nonempty_string ident"
    and "JSON_parse (js_substring s 1 (int (length s) - 1)) = Inl ex"
  shows "updateConnectorConfig st category ident (JStr s) requestId =
           (Threw (ConfigParseError (''Error parsing configuration: ['' @ ex @ '']'')), st)"
  using assms by (auto simp: updateConnectorConfig_def)

theorem config_parse_failure_witness:
  \<open>updateConnectorConfig \<lparr>client = \<lparr>published = [], subscribed = []\<rparr>, topicPrefix = ''cloud/u/g/'',
                    requestCounter = 0, sessionId = ''s''\<rparr>
      (JStr ''cloud'') (JStr ''c1'') (JStr (CHR 0x27 # ''{"a":}'' @ [CHR 0x27])) (JStr ''r1'')
   = (Threw (ConfigParseError ''Error parsing configuration: [SyntaxError: Unexpected token }]''),
      \<lparr>client = \<lparr>published = [], subscribed = []\<rparr>, topicPrefix = ''cloud/u/g/'',
                    requestCounter = 0, sessionId = ''s''\<rparr>)\<close>
proof -
  have p: \<open>JSON_parse (js_substring (CHR 0x27 # ''{"a":}'' @ [CHR 0x27]) 1
                        (int (length (CHR 0x27 # ''{"a":}'' @ [CHR 0x27])) - 1))
             = Inl ''SyntaxError: Unexpected token }''\<close>
    by code_simp
  show ?thesis
    using config_parse_failure [OF _ _ p, of "JStr ''cloud''" "JStr ''c1''"]
    by simp
qed

subsection \<open>The data of \<open>sendDataToConnector\<close>\<close>

text \<open>
  C7, as stated, fails on a string of one character: neither its first nor its last
  character is taken off; the text \<open>{}\<close> is sent in its place.
\<close>

theorem one_character_data:
  \<open>butlast (tl ''x'') = [] \<and>
   sendDataToConnector \<lparr>client = \<lparr>published = [], subscribed = []\<rparr>, topicPrefix = ''cloud/u/g/'',
                    requestCounter = 0, sessionId = ''s''\<rparr>
      (JStr ''device'') (JStr ''gw1'') (JStr ''x'') (JStr ''r1'')
   = (Returned,
      \<lparr>client = \<lparr>published = [(''cloud/u/g/r1'',
           JStr ''{"action":"send_data","category":"device","id":"gw1","data":"{}"}'')],
          subscribed = []\<rparr>,
       topicPrefix = ''cloud/u/g/'', requestCounter = 0, sessionId = ''s''\<rparr>)\<close>
  by code_simp

text \<open>
  C7, amended. With a category of \<open>"cloud"\<close> or \<open>"device"\<close> and an id that is a
  non-empty string, the \<open>data\<close> field of the payload is: for a string of two or more
  characters, the string without its first and last character; for an object or an
  array, its JSON text; for the empty string, undefined and null, the empty string; and
  for a string of one character, as for every other value that is truthy and no object,
  the text \<open>{}\<close>.
\<close>

theorem data_normalization:
  assumes "category = JStr ''cloud'' \<or> category = JStr ''device''"
    and "nonempty_string ident"
  shows "sendDataToConnector st category ident data requestId =
     sendPayload st
       (JObj [(''action'', JStr ''send_data''), (''category'', category), (''id'', ident),
              (''data'',
                 (case data of
                    JStr s \<Rightarrow> if 2 \<le> length s then JStr (butlast (tl s))
                              else if s = [] then JStr []
                              else JStr ''{}''
                  | JObj kvs \<Rightarrow> JStr (stringify_val data)
                  | JArr vs \<Rightarrow> JStr (stringify_val data)
                  | JUndefined \<Rightarrow> JStr []
                  | JNull \<Rightarrow> JStr []
                  | JBool b \<Rightarrow> if b then JStr ''{}'' else JStr []
                  | JNum n \<Rightarrow> if n = 0 then JStr [] else JStr ''{}''))])
       requestId"
  using assms
  by (cases data) (auto simp: sendDataToConnector_def substring_strip JSON_stringify_def)

theorem data_normalization_witness:
  \<open>sendDataToConnector \<lparr>client = \<lparr>published = [], subscribed = []\<rparr>, topicPrefix = ''cloud/u/g/'',
                    requestCounter = 0, sessionId = ''s''\<rparr>
      (JStr ''device'') (JStr ''gw1'') (JObj [(''command'', JStr ''system_info'')]) (JStr ''r1'')
   = (Returned,
      \<lparr>client = \<lparr>published = [(''cloud/u/g/r1'',
           JStr (''{"action":"send_data","category":"device","id":"gw1","data":"{''
                  @ [CHR 0x5C] @ ''"command'' @ [CHR 0x5C] @ ''":'' @ [CHR 0x5C] @ ''"system_info''
                  @ [CHR 0x5C] @ ''"}"}''))],
          subscribed = []\<rparr>,
       topicPrefix = ''cloud/u/g/'', requestCounter = 0, sessionId = ''s''\<rparr>)\<close>
  using data_normalization [of "JStr ''device''" "JStr ''gw1''" _
          "JObj [(''command'', JStr ''system_info'')]" "JStr ''r1''"]
  by (simp add: sendPayload_explicit publish_def JSON_stringify_def json_quote_def
          json_escape_char_def)

subsection \<open>A request id given to \<open>sysInfo\<close> or \<open>resetAgent\<close>\<close>

text \<open>
  C10 fails for \<open>sysInfo\<close> and \<open>resetAgent\<close>: both publish, and a request id given
  after the gateway name is dropped. The call does what the call without it does: the
  counter of the session advances and the message goes out on the generated topic.
\<close>

theorem requestId_dropped:
  assumes "nonempty_string gatewayname"
  shows "invoke SysInfo [gatewayname, requestId] st = invoke SysInfo [gatewayname] st
       \<and> requestCounter (snd (invoke SysInfo [gatewayname, requestId] st)) = requestCounter st + 1
       \<and> map fst (published (client (snd (invoke SysInfo [gatewayname, requestId] st))))
           = map fst (published (client st))
             @ [topicPrefix st @ sessionId st @ ''::'' @ show_nat (requestCounter st + 1)]
       \<and> invoke ResetAgent [gatewayname, requestId] st = invoke ResetAgent [gatewayname] st
       \<and> requestCounter (snd (invoke ResetAgent [gatewayname, requestId] st)) = requestCounter st + 1
       \<and> map fst (published (client (snd (invoke ResetAgent [gatewayname, requestId] st))))
           = map fst (published (client st))
             @ [topicPrefix st @ sessionId st @ ''::'' @ show_nat (requestCounter st + 1)]"
  using assms
  by (cases gatewayname)
     (simp_all add: arg_def sysInfo_def resetAgent_def sendDataToConnector_def
        sendPayload_generated publish_def)

theorem requestId_dropped_witness:
  \<open>requestCounter (snd (invoke SysInfo [JStr ''gw1'', JStr ''req-1'']
       \<lparr>client = \<lparr>published = [], subscribed = []\<rparr>, topicPrefix = ''cloud/u/g/'',
        requestCounter = 0, sessionId = ''s''\<rparr>)) = 1
   \<and> map fst (published (client (snd (invoke SysInfo [JStr ''gw1'', JStr ''req-1'']
       \<lparr>client = \<lparr>published = [], subscribed = []\<rparr>, topicPrefix = ''cloud/u/g/'',
        requestCounter = 0, sessionId = ''s''\<rparr>)))) = [''cloud/u/g/s::1'']\<close>
  using requestId_dropped [of "JStr ''gw1''" "JStr ''req-1''"
       "\<lparr>client = \<lparr>published = [], subscribed = []\<rparr>, topicPrefix = ''cloud/u/g/'',
        requestCounter = 0, sessionId = ''s''\<rparr>"]
  by (simp add: show_nat.simps digit_char_def arg_def)

subsection \<open>The command names\<close>

lemma buildCommandMap_names:
  "map fst (buildCommandMap gw) =
     [''con:stop'', ''con:stop_all'', ''con:stop_cloud'', ''con:stop_device'',
      ''con:start'', ''con:start_all'', ''con:start_cloud'', ''con:start_device'',
      ''con:restart'', ''con:restart_all'', ''con:restart_cloud'', ''con:restart_device'',
      ''con:list'', ''con:list_all'', ''con:list_cloud'', ''con:list_device'',
      ''con:send_data'', ''con:update_config'', ''con:delete_config'', ''con:update_type'',
      ''agent:reset'', ''agent:terminate'', ''agent:upgrade'', ''agent:prov_dev'',
      ''agent:prov_prod'', ''con:config_lepton'', ''sys:info'', ''sys:reboot'']"
  by (simp add: buildCommandMap_def generateCommand_def generateConnectorCommandFamily_def)

lemma lookup_not_registered:
  assumes "name \<notin> set (map fst (buildCommandMap gw))" "name \<notin> set object_prototype_keys"
  shows "lookup_command (buildCommandMap gw) name = Missing"
proof -
  have "map_of (buildCommandMap gw) name = None"
    using assms(1) by (simp add: map_of_eq_None_iff)
  with assms(2) show ?thesis by (simp add: lookup_command_def)
qed

lemma new_Shell_commandMap:
  "new_Shell cl gw username sid = Inr sh \<Longrightarrow> commandMap sh = buildCommandMap (js_String gw)"
  by (auto simp: new_Shell_def Let_def split: if_splits sum.splits)

lemma new_Shell_promptDef:
  "new_Shell cl gw username sid = Inr sh \<Longrightarrow> promptDef sh = None"
  by (auto simp: new_Shell_def Let_def split: if_splits sum.splits)

subsection \<open>Leaving the loop\<close>

lemma tokens_q: "match_tokens ''q'' = [''q'']"
  by (simp add: match_tokens_def emit_def is_js_space_def)

lemma tokens_quit: "match_tokens ''quit'' = [''quit'']"
  by (simp add: match_tokens_def emit_def is_js_space_def)

lemma tokens_exit: "match_tokens ''exit'' = [''exit'']"
  by (simp add: match_tokens_def emit_def is_js_space_def)

lemma tokens_bye: "match_tokens ''bye'' = [''bye'']"
  by (simp add: match_tokens_def emit_def is_js_space_def)

lemma tokens_reboot_quit: "match_tokens ''sys:reboot quit'' = [''sys:reboot'', ''quit'']"
  by (simp add: match_tokens_def emit_def is_js_space_def)

lemma bad_command_step:
  assumes "match_tokens l = [name]" "name \<noteq> ''q''"
    "name \<notin> set (map fst (buildCommandMap gw))" "name \<notin> set object_prototype_keys"
    "commandMap sh = buildCommandMap gw"
  shows "repl_step sh l = (False, console_log sh ''bad command'')"
  using assms lookup_not_registered[of name gw]
  by (simp add: repl_step_def Let_def del: set_map)

text \<open>The loop is left on exactly these lines, whatever the commands registered are.\<close>

lemma repl_step_done_iff:
  "fst (repl_step sh l) \<longleftrightarrow>
     match_tokens l \<noteq> [] \<and>
     (match_tokens l ! 0 = ''q'' \<or> (1 < length (match_tokens l) \<and> match_tokens l ! 1 = ''quit''))"
  by (auto simp: repl_step_def Let_def split: lookup.splits prod.splits outcome.splits)

text \<open>
  C8 fails on the loop of \<open>_repl\<close>. On a Shell as its constructor makes it, the line
  \<open>q\<close> ends the loop with the Shell untouched, but each of \<open>quit\<close>, \<open>exit\<close> and
  \<open>bye\<close> is answered with \<open>bad command\<close> and the loop goes on, so \<open>launch\<close> has
  not come back after the three of them; and a line whose second token is \<open>quit\<close>
  ends the loop whatever its first token is, here without running the command named.
\<close>

theorem quit_words_not_recognised:
  assumes "new_Shell cl gw username sid = Inr sh"
  shows "repl_step sh ''q'' = (True, sh)
       \<and> repl_step sh ''quit'' = (False, console_log sh ''bad command'')
       \<and> repl_step sh ''exit'' = (False, console_log sh ''bad command'')
       \<and> repl_step sh ''bye'' = (False, console_log sh ''bad command'')
       \<and> repl_step sh ''sys:reboot quit'' = (True, sh)
       \<and> fst (launch sh [''quit'', ''exit'', ''bye'']) = None"
proof -
  note cm = new_Shell_commandMap [OF assms]
  have q: "repl_step sh ''q'' = (True, sh)"
    by (simp add: repl_step_def tokens_q)
  have quit: "repl_step sh ''quit'' = (False, console_log sh ''bad command'')"
    if "commandMap sh = buildCommandMap (js_String gw)" for sh :: shell
    by (rule bad_command_step [OF tokens_quit _ _ _ that])
       (simp_all add: buildCommandMap_names object_prototype_keys_def)
  have exit: "repl_step sh ''exit'' = (False, console_log sh ''bad command'')"
    if "commandMap sh = buildCommandMap (js_String gw)" for sh :: shell
    by (rule bad_command_step [OF tokens_exit _ _ _ that])
       (simp_all add: buildCommandMap_names object_prototype_keys_def)
  have bye: "repl_step sh ''bye'' = (False, console_log sh ''bad command'')"
    if "commandMap sh = buildCommandMap (js_String gw)" for sh :: shell
    by (rule bad_command_step [OF tokens_bye _ _ _ that])
       (simp_all add: buildCommandMap_names object_prototype_keys_def)
  have rq: "repl_step sh ''sys:reboot quit'' = (True, sh)"
    by (simp add: repl_step_def tokens_reboot_quit)
  have l: "fst (launch sh [''quit'', ''exit'', ''bye'']) = None"
    using new_Shell_promptDef [OF assms] cm
    by (simp add: launch_def quit exit bye console_log_def)
  from q quit [OF cm] exit [OF cm] bye [OF cm] rq l show ?thesis by simp
qed

theorem quit_words_not_recognised_witness:
  \<open>(let sh = \<lparr>shSessionId = ''s'', gateway = ''g'',
               cmdr = \<lparr>client = \<lparr>published = [], subscribed = [''gateway/u/g/+'']\<rparr>,
                        topicPrefix = ''cloud/u/g/'', requestCounter = 0, sessionId = ''s''\<rparr>,
               promptDef = None, commandMap = buildCommandMap ''g'',
               console = [''Subscribing to: [gateway/u/g/+]'']\<rparr>
    in new_Shell \<lparr>published = [], subscribed = []\<rparr> (JStr ''g'') (JStr ''u'') (JStr ''s'') = Inr sh
       \<and> repl_step sh ''quit'' = (False, console_log sh ''bad command'')
       \<and> repl_step sh ''sys:reboot quit'' = (True, sh)
       \<and> fst (launch sh [''quit'', ''exit'', ''bye'']) = None)\<close>
proof -
  have n: \<open>new_Shell \<lparr>published = [], subscribed = []\<rparr> (JStr ''g'') (JStr ''u'') (JStr ''s'')
     = Inr \<lparr>shSessionId = ''s'', gateway = ''g'',
               cmdr = \<lparr>client = \<lparr>published = [], subscribed = [''gateway/u/g/+'']\<rparr>,
                        topicPrefix = ''cloud/u/g/'', requestCounter = 0, sessionId = ''s''\<rparr>,
               promptDef = None, commandMap = buildCommandMap ''g'',
               console = [''Subscribing to: [gateway/u/g/+]'']\<rparr>\<close>
    by (simp add: new_Shell_def new_Commander_def subscribe_def)
  show ?thesis
    using quit_words_not_recognised [OF n] n
    unfolding Let_def by blast
qed

subsection \<open>Completion\<close>

lemma has_prefix_iff: "has_prefix p s \<longleftrightarrow> (\<exists>v. s = p @ v)"
  unfolding has_prefix_def
  by (metis append_eq_conv_conj append_take_drop_id)

lemma js_indexOf_nonneg_iff: "0 \<le> js_indexOf s p \<longleftrightarrow> (\<exists>u v. s = u @ p @ v)"
proof (induction s)
  case Nil
  then show ?case by auto
next
  case (Cons c cs)
  show ?case
  proof (cases "has_prefix p (c # cs)")
    case True
    then obtain v where "c # cs = p @ v" by (auto simp: has_prefix_iff)
    then have "\<exists>u v. c # cs = u @ p @ v" by (metis append_Nil)
    with True show ?thesis by simp
  next
    case False
    have "(\<exists>u v. c # cs = u @ p @ v) \<longleftrightarrow> (\<exists>u v. cs = u @ p @ v)"
    proof
      assume "\<exists>u v. c # cs = u @ p @ v"
      then obtain u v where uv: "c # cs = u @ p @ v" by blast
      show "\<exists>u v. cs = u @ p @ v"
      proof (cases u)
        case Nil
        with uv False show ?thesis by (auto simp: has_prefix_iff)
      next
        case (Cons a u')
        with uv show ?thesis by auto
      qed
    next
      assume "\<exists>u v. cs = u @ p @ v"
      then obtain u v where "cs = u @ p @ v" by blast
      then have "c # cs = (c # u) @ p @ v" by simp
      then show "\<exists>u v. c # cs = u @ p @ v" by blast
    qed
    with False Cons.IH show ?thesis by (auto simp: Let_def)
  qed
qed

lemma tab_session_snoc:
  "tab_session cm matches (qs @ [q]) = snd (tabComplete cm (tab_session cm matches qs) q)"
  by (induction qs arbitrary: matches) auto

lemma tab_session_last:
  "tab_session cm [] qs =
     (if filter (\<lambda>q. q \<noteq> []) qs = [] then []
      else filter (\<lambda>command. 0 \<le> js_indexOf command (last (filter (\<lambda>q. q \<noteq> []) qs)))
             (map fst cm))"
proof (induction qs rule: rev_induct)
  case Nil
  then show ?case by simp
next
  case (snoc q qs)
  show ?case
  proof (cases "q = []")
    case True
    with snoc show ?thesis by (simp add: tab_session_snoc tabComplete_def)
  next
    case False
    then show ?thesis
      by (simp add: tab_session_snoc tabComplete_def Let_def)
  qed
qed

text \<open>
  C9, as stated, fails on its second half: after the query \<open>sys\<close>, the empty partial
  returns the two matches of that query, not the empty set.
\<close>

theorem stale_completions:
  \<open>fst (tabComplete (buildCommandMap ''g'') (tab_session (buildCommandMap ''g'') [] [''sys'']) [])
     = [''sys:info'', ''sys:reboot'']\<close>
  by code_simp

text \<open>
  C9, amended. After any queries \<open>qs\<close> made earlier on the same completion function:
  a partial that is not empty returns exactly the registered command names that contain
  it as a substring; the empty partial returns what the latest of the earlier queries
  that was not empty returned, and the empty list when there has been none.
\<close>

theorem completion_contract:
  "(q \<noteq> [] \<longrightarrow>
      set (fst (tabComplete (buildCommandMap gw) (tab_session (buildCommandMap gw) [] qs) q))
        = {command \<in> set (map fst (buildCommandMap gw)). \<exists>u v. command = u @ q @ v})
   \<and> fst (tabComplete (buildCommandMap gw) (tab_session (buildCommandMap gw) [] qs) [])
        = (if filter (\<lambda>q. q \<noteq> []) qs = [] then []
           else filter (\<lambda>command. 0 \<le> js_indexOf command (last (filter (\<lambda>q. q \<noteq> []) qs)))
                  (map fst (buildCommandMap gw)))"
proof (intro conjI impI)
  assume "q \<noteq> []"
  then have "fst (tabComplete (buildCommandMap gw) (tab_session (buildCommandMap gw) [] qs) q)
               = filter (\<lambda>command. 0 \<le> js_indexOf command q) (map fst (buildCommandMap gw))"
    by (simp add: tabComplete_def Let_def)
  then show "set (fst (tabComplete (buildCommandMap gw) (tab_session (buildCommandMap gw) [] qs) q))
               = {command \<in> set (map fst (buildCommandMap gw)). \<exists>u v. command = u @ q @ v}"
    by (simp add: js_indexOf_nonneg_iff del: set_map)
next
  have "fst (tabComplete (buildCommandMap gw) (tab_session (buildCommandMap gw) [] qs) [])
          = tab_session (buildCommandMap gw) [] qs"
    by (simp add: tabComplete_def)
  then show "fst (tabComplete (buildCommandMap gw) (tab_session (buildCommandMap gw) [] qs) [])
        = (if filter (\<lambda>q. q \<noteq> []) qs = [] then []
           else filter (\<lambda>command. 0 \<le> js_indexOf command (last (filter (\<lambda>q. q \<noteq> []) qs)))
                  (map fst (buildCommandMap gw)))"
    by (simp only: tab_session_last)
qed

theorem completion_contract_witness:
  \<open>{command \<in> set (map fst (buildCommandMap ''g'')). \<exists>u v. command = u @ ''art'' @ v}
     = set [''con:start'', ''con:start_all'', ''con:start_cloud'', ''con:start_device'',
            ''con:restart'', ''con:restart_all'', ''con:restart_cloud'', ''con:restart_device'']
   \<and> fst (tabComplete (buildCommandMap ''g'')
            (tab_session (buildCommandMap ''g'') [] [''rest'', [], ''sys'', []]) [])
     = [''sys:info'', ''sys:reboot'']\<close>
proof -
  have e: \<open>fst (tabComplete (buildCommandMap ''g'')
                 (tab_session (buildCommandMap ''g'') [] [''rest'', [], ''sys'', []]) ''art'')
     = [''con:start'', ''con:start_all'', ''con:start_cloud'', ''con:start_device'',
        ''con:restart'', ''con:restart_all'', ''con:restart_cloud'', ''con:restart_device'']\<close>
    by code_simp
  have f: \<open>filter (\<lambda>command. 0 \<le> js_indexOf command ''sys'') (map fst (buildCommandMap ''g''))
     = [''sys:info'', ''sys:reboot'']\<close>
    by code_simp
  have n: \<open>''art'' \<noteq> []\<close> by simp
  note c = completion_contract [of "''art''" "''g''" "[''rest'', [], ''sys'', []]"]
  from c n have "set (fst (tabComplete (buildCommandMap ''g'')
                 (tab_session (buildCommandMap ''g'') [] [''rest'', [], ''sys'', []]) ''art''))
      = {command \<in> set (map fst (buildCommandMap ''g'')). \<exists>u v. command = u @ ''art'' @ v}"
    by blast
  then have 1: \<open>{command \<in> set (map fst (buildCommandMap ''g'')). \<exists>u v. command = u @ ''art'' @ v}
     = set [''con:start'', ''con:start_all'', ''con:start_cloud'', ''con:start_device'',
            ''con:restart'', ''con:restart_all'', ''con:restart_cloud'', ''con:restart_device'']\<close>
    unfolding e by (rule sym)
  from c have 2: \<open>fst (tabComplete (buildCommandMap ''g'')
            (tab_session (buildCommandMap ''g'') [] [''rest'', [], ''sys'', []]) [])
     = [''sys:info'', ''sys:reboot'']\<close>
    by (simp add: f del: set_map)
  from 1 2 show ?thesis by (rule conjI)
qed

subsection \<open>Request ids\<close>











subsection \<open>The provisioning plan\<close>

lemma sendPayload_published:
  "published (client (snd (sendPayload st p rid))) =
     published (client st)
     @ [(topicPrefix st @ (if truthy rid then js_String rid
                           else sessionId st @ ''::'' @ show_nat (requestCounter st + 1)),
         JSON_stringify p)]"
  by (simp add: sendPayload_def getNextRequestId_def publish_def Let_def)

lemma stringify_disable:
  \<open>JSON_stringify (JObj [(''command'', JStr ''disable_local_network'')])
     = JStr ''{"command":"disable_local_network"}''\<close>
  by code_simp

lemma initAgent_payload:
  assumes "get_prop options ''host'' = JStr host" "host \<noteq> []"
    and "get_prop options ''currentGatewayName'' = JStr current" "current \<noteq> []"
    and "get_prop options ''newGatewayName'' = JStr new" "new \<noteq> []"
    and "get_prop options ''username'' = JStr user" "user \<noteq> []"
    and "get_prop options ''password'' = JStr password" "password \<noteq> []"
  shows \<open>initAgent st options requestId =
    sendPayload st (JArr (
      [JObj [(''action'', JStr ''update_config''), (''category'', JStr ''cloud''),
              (''id'', JStr (''cnc-cloud-'' @ new)),
              (''config'', JObj [(''type'', JStr ''CncCloud''),
                 (''config'', JObj [(''host'', JStr host),
                    (''port'', js_or (get_prop options ''port'') (JStr ''8443'')),
                    (''protocol'', js_or (get_prop options ''protocol'') (JStr ''mqtts'')),
                    (''networkInterface'', js_or (get_prop options ''networkInterface'') (JStr ''eth0'')),
                    (''gatewayname'', JStr new), (''username'', JStr user),
                    (''password'', JStr password), (''topics'', JStr [])])])],
       JObj [(''action'', JStr ''update_config''), (''category'', JStr ''device''),
              (''id'', JStr (''cnc-gateway-'' @ new)),
              (''config'', JObj [(''type'', JStr ''CncGateway''), (''config'', JObj [])])],
       JObj [(''action'', JStr ''send_data''), (''category'', JStr ''device''),
              (''id'', JStr (''cnc-gateway-'' @ current)),
              (''data'', JStr ''{"command":"disable_local_network"}'')],
       JObj [(''action'', JStr ''delete_config''), (''category'', JStr ''cloud''),
              (''id'', JStr (''cnc-cloud-'' @ current))],
       JObj [(''action'', JStr ''delete_config''), (''category'', JStr ''device''),
              (''id'', JStr (''cnc-gateway-'' @ current))]]
      @ (if nonempty_string (get_prop options ''apiKey'') then
          [JObj [(''action'', JStr ''update_config''), (''category'', JStr ''cloud''),
                (''id'', JStr ''http''),
                (''config'', JObj [(''type'', JStr ''Http''),
                   (''config'', JObj [(''pollFrequency'', JNum 10000),
                      (''url'', JStr (''https://'' @ host)),
                      (''headers'', JObj [(''apiKey'', get_prop options ''apiKey''),
                         (''content-type'', JStr ''application/json'')])])])]]
         else []))) requestId\<close>
proof -
  from assms(1) obtain kvs where o: "options = JObj kvs"
    by (cases options) auto
  show ?thesis
    using assms unfolding o initAgent_def Let_def stringify_disable
    by (simp del: get_prop.simps)
qed

text \<open>
  C1. For options with a non-empty string in each of \<open>host\<close>, \<open>currentGatewayName\<close>,
  \<open>newGatewayName\<close>, \<open>username\<close> and \<open>password\<close>, \<open>initAgent\<close> hands one
  array to \<open>_sendPayload\<close>, published as one message on one topic: the five steps at
  indices 0 to 4 are the new cloud connector, the new device connector, the
  \<open>disable_local_network\<close> command to the current gateway, and the two deletions of
  the current gateway's configurations; the array has a sixth step, the \<open>http\<close>
  connector at index 5, exactly when \<open>apiKey\<close> is a non-empty string.
\<close>

theorem provisioning_plan:
  assumes "get_prop options ''host'' = JStr host" "host \<noteq> []"
    and "get_prop options ''currentGatewayName'' = JStr current" "current \<noteq> []"
    and "get_prop options ''newGatewayName'' = JStr new" "new \<noteq> []"
    and "get_prop options ''username'' = JStr user" "user \<noteq> []"
    and "get_prop options ''password'' = JStr password" "password \<noteq> []"
  shows \<open>\<exists>plan.
      initAgent st options requestId = sendPayload st (JArr plan) requestId
    \<and> published (client (snd (initAgent st options requestId))) =
        published (client st)
        @ [(topicPrefix st @ (if truthy requestId then js_String requestId
                              else sessionId st @ ''::'' @ show_nat (requestCounter st + 1)),
            JStr (stringify_val (JArr plan)))]
    \<and> length plan = (if nonempty_string (get_prop options ''apiKey'') then 6 else 5)
    \<and> plan ! 0 =
        JObj [(''action'', JStr ''update_config''), (''category'', JStr ''cloud''),
              (''id'', JStr (''cnc-cloud-'' @ new)),
              (''config'', JObj [(''type'', JStr ''CncCloud''),
                 (''config'', JObj [(''host'', JStr host),
                    (''port'', js_or (get_prop options ''port'') (JStr ''8443'')),
                    (''protocol'', js_or (get_prop options ''protocol'') (JStr ''mqtts'')),
                    (''networkInterface'', js_or (get_prop options ''networkInterface'') (JStr ''eth0'')),
                    (''gatewayname'', JStr new), (''username'', JStr user),
                    (''password'', JStr password), (''topics'', JStr [])])])]
    \<and> plan ! 1 =
        JObj [(''action'', JStr ''update_config''), (''category'', JStr ''device''),
              (''id'', JStr (''cnc-gateway-'' @ new)),
              (''config'', JObj [(''type'', JStr ''CncGateway''), (''config'', JObj [])])]
    \<and> plan ! 2 =
        JObj [(''action'', JStr ''send_data''), (''category'', JStr ''device''),
              (''id'', JStr (''cnc-gateway-'' @ current)),
              (''data'', JStr ''{"command":"disable_local_network"}'')]
    \<and> plan ! 3 =
        JObj [(''action'', JStr ''delete_config''), (''category'', JStr ''cloud''),
              (''id'', JStr (''cnc-cloud-'' @ current))]
    \<and> plan ! 4 =
        JObj [(''action'', JStr ''delete_config''), (''category'', JStr ''device''),
              (''id'', JStr (''cnc-gateway-'' @ current))]
    \<and> (nonempty_string (get_prop options ''apiKey'') \<longrightarrow>
        plan ! 5 =
          JObj [(''action'', JStr ''update_config''), (''category'', JStr ''cloud''),
                (''id'', JStr ''http''),
                (''config'', JObj [(''type'', JStr ''Http''),
                   (''config'', JObj [(''pollFrequency'', JNum 10000),
                      (''url'', JStr (''https://'' @ host)),
                      (''headers'', JObj [(''apiKey'', get_prop options ''apiKey''),
                         (''content-type'', JStr ''application/json'')])])])])\<close>
proof -
  show ?thesis
    apply (rule exI)
    apply (rule conjI)
     apply (subst initAgent_payload [OF assms])
     apply (rule refl)
    apply (simp add: initAgent_payload [OF assms] sendPayload_published JSON_stringify_def
        del: stringify_val.simps)
    done
qed

theorem provisioning_plan_witness:
  \<open>map fst (published (client (snd (initAgent
       \<lparr>client = \<lparr>published = [], subscribed = []\<rparr>, topicPrefix = ''cloud/u/g/'',
        requestCounter = 0, sessionId = ''s''\<rparr>
       (JObj [(''host'', JStr ''h''), (''currentGatewayName'', JStr ''old''),
              (''newGatewayName'', JStr ''new''), (''username'', JStr ''u''),
              (''password'', JStr ''p''), (''apiKey'', JStr ''k'')])
       (JStr ''r1'')))))
   = [''cloud/u/g/r1'']
   \<and> (\<exists>plan. initAgent
       \<lparr>client = \<lparr>published = [], subscribed = []\<rparr>, topicPrefix = ''cloud/u/g/'',
        requestCounter = 0, sessionId = ''s''\<rparr>
       (JObj [(''host'', JStr ''h''), (''currentGatewayName'', JStr ''old''),
              (''newGatewayName'', JStr ''new''), (''username'', JStr ''u''),
              (''password'', JStr ''p''), (''apiKey'', JStr ''k'')])
       (JStr ''r1'')
      = sendPayload
       \<lparr>client = \<lparr>published = [], subscribed = []\<rparr>, topicPrefix = ''cloud/u/g/'',
        requestCounter = 0, sessionId = ''s''\<rparr> (JArr plan) (JStr ''r1'')
      \<and> length plan = 6
      \<and> get_prop (plan ! 0) ''id'' = JStr ''cnc-cloud-new''
      \<and> get_prop (plan ! 1) ''id'' = JStr ''cnc-gateway-new''
      \<and> get_prop (plan ! 2) ''id'' = JStr ''cnc-gateway-old''
      \<and> get_prop (plan ! 3) ''id'' = JStr ''cnc-cloud-old''
      \<and> get_prop (plan ! 4) ''id'' = JStr ''cnc-gateway-old''
      \<and> get_prop (plan ! 5) ''id'' = JStr ''http'')\<close>
proof -
  let ?st = "\<lparr>client = \<lparr>published = [], subscribed = []\<rparr>, topicPrefix = ''cloud/u/g/'',
        requestCounter = 0, sessionId = ''s''\<rparr>"
  let ?o = "JObj [(''host'', JStr ''h''), (''currentGatewayName'', JStr ''old''),
              (''newGatewayName'', JStr ''new''), (''username'', JStr ''u''),
              (''password'', JStr ''p''), (''apiKey'', JStr ''k'')]"
  from provisioning_plan [of ?o "''h''" "''old''" "''new''" "''u''" "''p''" ?st "JStr ''r1''"]
  obtain plan where
      e: "initAgent ?st ?o (JStr ''r1'') = sendPayload ?st (JArr plan) (JStr ''r1'')"
    and p: "published (client (snd (initAgent ?st ?o (JStr ''r1'')))) =
            [(''cloud/u/g/r1'', JStr (stringify_val (JArr plan)))]"
    and l: "length plan = 6"
    and s: "get_prop (plan ! 0) ''id'' = JStr ''cnc-cloud-new''"
       "get_prop (plan ! 1) ''id'' = JStr ''cnc-gateway-new''"
       "get_prop (plan ! 2) ''id'' = JStr ''cnc-gateway-old''"
       "get_prop (plan ! 3) ''id'' = JStr ''cnc-cloud-old''"
       "get_prop (plan ! 4) ''id'' = JStr ''cnc-gateway-old''"
       "get_prop (plan ! 5) ''id'' = JStr ''http''"
    by auto
  from p have "map fst (published (client (snd (initAgent ?st ?o (JStr ''r1''))))) = [''cloud/u/g/r1'']"
    by simp
  with e l s show ?thesis by blast
qed

subsection \<open>Reading back what \<open>JSON.stringify\<close> wrote\<close>






lemma delimited_not_digit: "delimited rest \<Longrightarrow> rest \<noteq> [] \<Longrightarrow> \<not> is_digit (hd rest)"
  by (auto simp: delimited_def is_digit_def)










lemma skip_ws_delim [simp]:
  "skip_ws (CHR '','' # r) = CHR '','' # r"
  "skip_ws (CHR '']'' # r) = CHR '']'' # r"
  "skip_ws (CHR ''}'' # r) = CHR ''}'' # r"
  "skip_ws (CHR '':'' # r) = CHR '':'' # r"
  "skip_ws [] = []"
  by (simp_all add: skip_ws_def is_json_ws_def)









lemma delimited_simps [simp]:
  "delimited []" "delimited (CHR '','' # r)" "delimited (CHR '']'' # r)" "delimited (CHR ''}'' # r)"
  by (simp_all add: delimited_def)












lemma stringify_elems_Nil [simp]: "stringify_elems vs = [] \<longleftrightarrow> vs = []"
  by (cases vs) simp_all




subsection \<open>The fuel of the parser is enough\<close>

text \<open>
  Every successful step of the parser consumes input, so the fuel \<open>JSON_parse\<close>
  starts with is never used up: its last case is never the one taken, on any text.
\<close>

lemma skip_ws_length: "length (skip_ws s) \<le> length s"
  by (simp add: skip_ws_def length_dropWhile_le)

lemma prepend_POk:
  "prepend c r = POk x rest \<Longrightarrow> \<exists>y. r = POk y rest \<and> x = c # y"
  by (cases r; simp add: prepend_def)

lemma prepend_PFuel: "prepend c r = PFuel \<longleftrightarrow> r = PFuel"
  by (cases r; simp add: prepend_def)

lemma parse_number_fuel: "parse_number s \<noteq> PFuel"
  by (simp add: parse_number_def Let_def)

lemma parse_number_shrinks: "parse_number s = POk v r \<Longrightarrow> length r < length s"
proof -
  assume a: "parse_number s = POk v r"
  define s1 where "s1 = (if s \<noteq> [] \<and> hd s = CHR ''-'' then tl s else s)"
  define ds where "ds = (if s1 \<noteq> [] \<and> hd s1 = CHR ''0'' then ''0'' else takeWhile is_digit s1)"
  from a have r: "r = drop (length ds) s1" and ne: "ds \<noteq> []"
    unfolding parse_number_def Let_def s1_def [symmetric] ds_def [symmetric]
    by (auto split: if_splits)
  have "s1 \<noteq> []" using ne by (auto simp: ds_def split: if_splits)
  then have "0 < length s1" by simp
  moreover have "length s1 \<le> length s" by (simp add: s1_def)
  moreover have "0 < length ds" using ne by simp
  moreover have "length (drop (length ds) s1) = length s1 - length ds" by simp
  ultimately show ?thesis unfolding r by linarith
qed

lemma parse_string_chars_fuel: "parse_string_chars s \<noteq> PFuel"
proof (induction s rule: parse_string_chars.induct)
  case 1
  then show ?case by simp
next
  case (2 c cs)
  show ?case
  proof (cases "c = CHR 0x22")
    case True
    then show ?thesis by simp
  next
    case nq: False
    show ?thesis
    proof (cases "c = CHR 0x5C")
      case False
      with nq 2(3) show ?thesis by (simp add: prepend_PFuel)
    next
      case bs: True
      show ?thesis
      proof (cases cs)
        case Nil
        with bs show ?thesis by simp
      next
        case (Cons e r)
        show ?thesis
        proof (cases "e = CHR ''u''")
          case False
          with bs Cons 2(2) [of e r] show ?thesis
            by (simp add: prepend_PFuel split: option.splits)
        next
          case True
          with bs Cons 2(1) [of e r] show ?thesis
            by (simp add: prepend_PFuel split: option.splits list.splits)
        qed
      qed
    qed
  qed
qed

lemma parse_string_chars_shrinks: "parse_string_chars s = POk x r \<Longrightarrow> length r < length s"
proof (induction s arbitrary: x rule: parse_string_chars.induct)
  case 1
  then show ?case by simp
next
  case (2 c cs)
  show ?case
  proof (cases "c = CHR 0x22")
    case True
    with "2.prems" show ?thesis by simp
  next
    case nq: False
    show ?thesis
    proof (cases "c = CHR 0x5C")
      case False
      with nq "2.prems" have "\<not> (of_char c :: nat) < 32"
        and "prepend c (parse_string_chars cs) = POk x r"
        by (auto split: if_splits)
      then obtain y where "parse_string_chars cs = POk y r"
        using prepend_POk by blast
      with "2.IH"(3) [OF nq False \<open>\<not> (of_char c :: nat) < 32\<close>] show ?thesis
        by fastforce
    next
      case bs: True
      show ?thesis
      proof (cases cs)
        case Nil
        with bs "2.prems" show ?thesis by simp
      next
        case (Cons e t)
        show ?thesis
        proof (cases "e = CHR ''u''")
          case False
          with bs Cons "2.prems" obtain ch where u: "unescape e = Some ch"
            and "prepend ch (parse_string_chars t) = POk x r"
            by (auto split: option.splits)
          then obtain y where "parse_string_chars t = POk y r"
            using prepend_POk by blast
          with "2.IH"(2) [OF nq bs Cons False u] Cons show ?thesis
            by fastforce
        next
          case True
          with bs Cons "2.prems" obtain h1 h2 h3 h4 t' n where t: "t = h1 # h2 # h3 # h4 # t'"
            and h: "hex4 h1 h2 h3 h4 = Some n" and n: "n < 256"
            and "prepend (char_of n) (parse_string_chars t') = POk x r"
            by (auto split: option.splits list.splits if_splits)
          then obtain y where "parse_string_chars t' = POk y r"
            using prepend_POk by blast
          moreover from Cons t have cs: "cs = e # h1 # h2 # h3 # h4 # t'" by simp
          ultimately show ?thesis
            using "2.IH"(1) [OF nq bs cs True refl refl refl refl h n] by fastforce
        qed
      qed
    qed
  qed
qed

lemma has_prefix_length: "has_prefix p s \<Longrightarrow> length p \<le> length s"
  unfolding has_prefix_def by (metis length_take min.cobounded1)

lemma parse_value_Suc_POk:
  assumes "parse_value (Suc n) s = POk v r"
  shows "(\<exists>cs x. s = CHR 0x22 # cs \<and> parse_string_chars cs = POk x r)
       \<or> (\<exists>cs. s = CHR ''['' # cs \<and>
             ((skip_ws cs \<noteq> [] \<and> r = tl (skip_ws cs))
              \<or> (\<exists>vs. parse_elements n (skip_ws cs) = POk vs r)))
       \<or> (\<exists>cs. s = CHR ''{'' # cs \<and>
             ((skip_ws cs \<noteq> [] \<and> r = tl (skip_ws cs))
              \<or> (\<exists>kvs. parse_members n (skip_ws cs) = POk kvs r)))
       \<or> (4 \<le> length s \<and> r = drop 4 s)
       \<or> (5 \<le> length s \<and> r = drop 5 s)
       \<or> parse_number s = POk v r"
proof (cases s)
  case Nil
  with assms show ?thesis by (simp add: parse_value.simps)
next
  case (Cons c cs)
  show ?thesis
  proof (cases "c = CHR 0x22")
    case True
    with assms Cons show ?thesis
      by (auto simp: parse_value.simps split: presult.splits)
  next
    case nq: False
    show ?thesis
    proof (cases "c = CHR ''[''")
      case True
      with assms Cons show ?thesis
        by (auto simp: parse_value.simps split: presult.splits if_splits)
    next
      case na: False
      show ?thesis
      proof (cases "c = CHR ''{''")
        case True
        with assms Cons show ?thesis
          by (auto simp: parse_value.simps split: presult.splits if_splits)
      next
        case no: False
        from assms Cons nq na no
        have "(has_prefix ''true'' s \<and> r = drop 4 s) \<or> (has_prefix ''false'' s \<and> r = drop 5 s)
              \<or> (has_prefix ''null'' s \<and> r = drop 4 s) \<or> parse_number s = POk v r"
          by (simp add: parse_value.simps split: if_splits)
        then show ?thesis
          using has_prefix_length [of "''true''" s] has_prefix_length [of "''false''" s]
            has_prefix_length [of "''null''" s]
          by auto
      qed
    qed
  qed
qed

lemma parse_value_Suc_PFuel:
  assumes "parse_value (Suc n) s = PFuel"
  shows "(\<exists>cs. s = CHR ''['' # cs \<and> parse_elements n (skip_ws cs) = PFuel)
       \<or> (\<exists>cs. s = CHR ''{'' # cs \<and> parse_members n (skip_ws cs) = PFuel)"
proof (cases s)
  case Nil
  with assms show ?thesis by (simp add: parse_value.simps)
next
  case (Cons c cs)
  show ?thesis
  proof (cases "c = CHR 0x22")
    case True
    with assms Cons show ?thesis
      using parse_string_chars_fuel [of cs]
      by (auto simp: parse_value.simps split: presult.splits)
  next
    case nq: False
    show ?thesis
    proof (cases "c = CHR ''[''")
      case True
      with assms Cons show ?thesis
        by (auto simp: parse_value.simps split: presult.splits if_splits)
    next
      case na: False
      show ?thesis
      proof (cases "c = CHR ''{''")
        case True
        with assms Cons show ?thesis
          by (auto simp: parse_value.simps split: presult.splits if_splits)
      next
        case no: False
        from assms Cons nq na no show ?thesis
          using parse_number_fuel [of s]
          by (simp add: parse_value.simps split: if_splits)
      qed
    qed
  qed
qed

lemma parse_elements_Suc_POk:
  assumes "parse_elements (Suc n) s = POk vs r"
  shows "\<exists>v r1 d r'. parse_value n s = POk v r1 \<and> skip_ws r1 = d # r' \<and>
           ((d = CHR '','' \<and> (\<exists>vs'. parse_elements n (skip_ws r') = POk vs' r))
            \<or> (d = CHR '']'' \<and> r = r'))"
  using assms
  by (auto simp: parse_elements.simps split: presult.splits list.splits if_splits)

lemma parse_elements_Suc_PFuel:
  assumes "parse_elements (Suc n) s = PFuel"
  shows "parse_value n s = PFuel
       \<or> (\<exists>v r1 r'. parse_value n s = POk v r1 \<and> skip_ws r1 = CHR '','' # r' \<and>
            parse_elements n (skip_ws r') = PFuel)"
  using assms
  by (auto simp: parse_elements.simps split: presult.splits list.splits if_splits)

lemma parse_members_Suc_POk:
  assumes "parse_members (Suc n) s = POk kvs r"
  shows "\<exists>cs k r0 r1 v r2 d r3. s = CHR 0x22 # cs \<and> parse_string_chars cs = POk k r0 \<and>
           skip_ws r0 = CHR '':'' # r1 \<and> parse_value n (skip_ws r1) = POk v r2 \<and>
           skip_ws r2 = d # r3 \<and>
           ((d = CHR '','' \<and> (\<exists>kvs'. parse_members n (skip_ws r3) = POk kvs' r))
            \<or> (d = CHR ''}'' \<and> r = r3))"
  using assms
  by (auto simp: parse_members.simps split: presult.splits list.splits if_splits)

lemma parse_members_Suc_PFuel:
  assumes "parse_members (Suc n) s = PFuel"
  shows "\<exists>cs k r0 r1. s = CHR 0x22 # cs \<and> parse_string_chars cs = POk k r0 \<and>
           skip_ws r0 = CHR '':'' # r1 \<and>
           (parse_value n (skip_ws r1) = PFuel
            \<or> (\<exists>v r2 r3. parse_value n (skip_ws r1) = POk v r2 \<and> skip_ws r2 = CHR '','' # r3 \<and>
                 parse_members n (skip_ws r3) = PFuel))"
  using assms parse_string_chars_fuel
  by (auto simp: parse_members.simps split: presult.splits list.splits if_splits)

lemma skip_ws_Cons_length: "skip_ws r = d # r' \<Longrightarrow> length r' < length r"
  using skip_ws_length [of r] by simp

lemma parse_shrinks:
  "(\<forall>s v r. parse_value n s = POk v r \<longrightarrow> length r < length s)
   \<and> (\<forall>s vs r. parse_elements n s = POk vs r \<longrightarrow> length r < length s)
   \<and> (\<forall>s kvs r. parse_members n s = POk kvs r \<longrightarrow> length r < length s)"
proof (induction n)
  case 0
  show ?case by (simp add: parse_value.simps parse_elements.simps parse_members.simps)
next
  case (Suc n)
  have v: "length r < length s" if "parse_value (Suc n) s = POk v r" for s v r
    using parse_value_Suc_POk [OF that]
  proof (elim disjE exE conjE)
    fix cs x assume "s = CHR 0x22 # cs" "parse_string_chars cs = POk x r"
    then show ?thesis using parse_string_chars_shrinks [of cs x r] by simp
  next
    fix cs assume "s = CHR ''['' # cs" "skip_ws cs \<noteq> []" "r = tl (skip_ws cs)"
    then show ?thesis using skip_ws_length [of cs] by (cases "skip_ws cs") auto
  next
    fix cs vs assume "s = CHR ''['' # cs" "parse_elements n (skip_ws cs) = POk vs r"
    then show ?thesis using Suc skip_ws_length [of cs] by fastforce
  next
    fix cs assume "s = CHR ''{'' # cs" "skip_ws cs \<noteq> []" "r = tl (skip_ws cs)"
    then show ?thesis using skip_ws_length [of cs] by (cases "skip_ws cs") auto
  next
    fix cs kvs assume "s = CHR ''{'' # cs" "parse_members n (skip_ws cs) = POk kvs r"
    then show ?thesis using Suc skip_ws_length [of cs] by fastforce
  next
    assume "4 \<le> length s" "r = drop 4 s"
    then show ?thesis by simp
  next
    assume "5 \<le> length s" "r = drop 5 s"
    then show ?thesis by simp
  next
    assume "parse_number s = POk v r"
    then show ?thesis by (rule parse_number_shrinks)
  qed
  have e: "length r < length s" if "parse_elements (Suc n) s = POk vs r" for s vs r
  proof -
    from parse_elements_Suc_POk [OF that] obtain v r1 d r' where
      a: "parse_value n s = POk v r1" and b: "skip_ws r1 = d # r'"
      and c: "(\<exists>vs'. parse_elements n (skip_ws r') = POk vs' r) \<or> r = r'"
      by blast
    from a Suc have 1: "length r1 < length s" by blast
    from b have 2: "length r' < length r1" by (rule skip_ws_Cons_length)
    from c show ?thesis
    proof
      assume "\<exists>vs'. parse_elements n (skip_ws r') = POk vs' r"
      with Suc have "length r < length (skip_ws r')" by blast
      with 1 2 skip_ws_length [of r'] show ?thesis by linarith
    next
      assume "r = r'"
      with 1 2 show ?thesis by simp
    qed
  qed
  have m: "length r < length s" if "parse_members (Suc n) s = POk kvs r" for s kvs r
  proof -
    from parse_members_Suc_POk [OF that] obtain cs k r0 r1 v r2 d r3 where
      s: "s = CHR 0x22 # cs" and k: "parse_string_chars cs = POk k r0"
      and c: "skip_ws r0 = CHR '':'' # r1" and a: "parse_value n (skip_ws r1) = POk v r2"
      and b: "skip_ws r2 = d # r3"
      and d: "(\<exists>kvs'. parse_members n (skip_ws r3) = POk kvs' r) \<or> r = r3"
      by blast
    from k have 0: "length r0 < length cs" by (rule parse_string_chars_shrinks)
    from c have 1: "length r1 < length r0" by (rule skip_ws_Cons_length)
    from a Suc have "length r2 < length (skip_ws r1)" by blast
    with skip_ws_length [of r1] have 2: "length r2 < length r1" by linarith
    from b have 3: "length r3 < length r2" by (rule skip_ws_Cons_length)
    from d show ?thesis
    proof
      assume "\<exists>kvs'. parse_members n (skip_ws r3) = POk kvs' r"
      with Suc have "length r < length (skip_ws r3)" by blast
      with 0 1 2 3 skip_ws_length [of r3] s show ?thesis by simp
    next
      assume "r = r3"
      with 0 1 2 3 s show ?thesis by simp
    qed
  qed
  from v e m show ?case by blast
qed

lemma parse_fuel:
  "(\<forall>s. 2 * length s < n \<longrightarrow> parse_value n s \<noteq> PFuel)
   \<and> (\<forall>s. 2 * length s + 2 \<le> n \<longrightarrow> parse_elements n s \<noteq> PFuel)
   \<and> (\<forall>s. 2 * length s + 2 \<le> n \<longrightarrow> parse_members n s \<noteq> PFuel)"
proof (induction n)
  case 0
  show ?case by simp
next
  case (Suc n)
  note sh = parse_shrinks [of n]
  have v: "parse_value (Suc n) s \<noteq> PFuel" if l: "2 * length s < Suc n" for s
  proof
    assume "parse_value (Suc n) s = PFuel"
    from parse_value_Suc_PFuel [OF this] show False
    proof (elim disjE exE conjE)
      fix cs assume s: "s = CHR ''['' # cs" and f: "parse_elements n (skip_ws cs) = PFuel"
      from l s skip_ws_length [of cs] have "2 * length (skip_ws cs) + 2 \<le> n" by simp
      with Suc f show False by blast
    next
      fix cs assume s: "s = CHR ''{'' # cs" and f: "parse_members n (skip_ws cs) = PFuel"
      from l s skip_ws_length [of cs] have "2 * length (skip_ws cs) + 2 \<le> n" by simp
      with Suc f show False by blast
    qed
  qed
  have e: "parse_elements (Suc n) s \<noteq> PFuel" if l: "2 * length s + 2 \<le> Suc n" for s
  proof
    assume "parse_elements (Suc n) s = PFuel"
    from parse_elements_Suc_PFuel [OF this] show False
    proof (elim disjE exE conjE)
      assume f: "parse_value n s = PFuel"
      from l have "2 * length s < n" by simp
      with Suc f show False by blast
    next
      fix v r1 r' assume a: "parse_value n s = POk v r1" and b: "skip_ws r1 = CHR '','' # r'"
        and f: "parse_elements n (skip_ws r') = PFuel"
      from a sh have "length r1 < length s" by blast
      moreover from b have "length r' < length r1" by (rule skip_ws_Cons_length)
      ultimately have "2 * length (skip_ws r') + 2 \<le> n"
        using l skip_ws_length [of r'] by linarith
      with Suc f show False by blast
    qed
  qed
  have m: "parse_members (Suc n) s \<noteq> PFuel" if l: "2 * length s + 2 \<le> Suc n" for s
  proof
    assume "parse_members (Suc n) s = PFuel"
    from parse_members_Suc_PFuel [OF this] obtain cs k r0 r1 where
      s: "s = CHR 0x22 # cs" and k: "parse_string_chars cs = POk k r0"
      and c: "skip_ws r0 = CHR '':'' # r1"
      and d: "parse_value n (skip_ws r1) = PFuel
            \<or> (\<exists>v r2 r3. parse_value n (skip_ws r1) = POk v r2 \<and> skip_ws r2 = CHR '','' # r3 \<and>
                 parse_members n (skip_ws r3) = PFuel)"
      by blast
    from k have 0: "length r0 < length cs" by (rule parse_string_chars_shrinks)
    from c have 1: "length r1 < length r0" by (rule skip_ws_Cons_length)
    from d show False
    proof (elim disjE exE conjE)
      assume f: "parse_value n (skip_ws r1) = PFuel"
      from 0 1 l s skip_ws_length [of r1] have "2 * length (skip_ws r1) < n" by simp
      with Suc f show False by blast
    next
      fix v r2 r3 assume a: "parse_value n (skip_ws r1) = POk v r2"
        and b: "skip_ws r2 = CHR '','' # r3" and f: "parse_members n (skip_ws r3) = PFuel"
      from a sh have "length r2 < length (skip_ws r1)" by blast
      with skip_ws_length [of r1] have 2: "length r2 < length r1" by linarith
      from b have 3: "length r3 < length r2" by (rule skip_ws_Cons_length)
      from 0 1 2 3 l s skip_ws_length [of r3] have "2 * length (skip_ws r3) + 2 \<le> n" by simp
      with Suc f show False by blast
    qed
  qed
  from v e m show ?case by blast
qed

lemma JSON_parse_fuel_suffices: "parse_value (2 * length s + 1) (skip_ws s) \<noteq> PFuel"
proof -
  have "2 * length (skip_ws s) < 2 * length s + 1"
    using skip_ws_length [of s] by simp
  with parse_fuel [of "2 * length s + 1"] show ?thesis by blast
qed

subsection \<open>A configuration given as JSON text\<close>




end
